theory Spec2Isabelle
  imports Main "HOL-Library.Multiset"
begin

section \<open>Requests and responses\<close>

text \<open>
  A JSON value, as \<^verbatim>\<open>res.json\<close> sends it. An object is the list of its keys with their
  values, in the order the handler writes them; a key that the handler does not write
  is not in the list.
\<close>

datatype json =
    JNull
  | JBool bool
  | JNum int
  | JStr string
  | JArr "json list"
  | JObj "(string \<times> json) list"

text \<open>
  A response is the HTTP status with the fields of the JSON envelope.
  \<^verbatim>\<open>res.json(x)\<close> without \<^verbatim>\<open>res.status\<close> sends status 200.
\<close>

type_synonym response = "nat \<times> (string \<times> json) list"

definition status_of :: "response \<Rightarrow> nat" where
  "status_of r = fst r"

definition field_of :: "response \<Rightarrow> string \<Rightarrow> json option" where
  "field_of r k = map_of (snd r) k"

definition has_field :: "response \<Rightarrow> string \<Rightarrow> bool" where
  "has_field r k = (k \<in> set (map fst (snd r)))"

text \<open>
  A field of a request body after \<^verbatim>\<open>const { name, email, ... } = req.body\<close>: the key is
  absent (\<^verbatim>\<open>undefined\<close>), \<^verbatim>\<open>null\<close>, or a string. The browser forms of the repository
  send strings; numbers, booleans, arrays and objects as field values are outside this
  model.
\<close>

datatype field = Absent | Null | Text string

text \<open>JavaScript truthiness of a field: \<^verbatim>\<open>undefined\<close>, \<^verbatim>\<open>null\<close> and \<^verbatim>\<open>""\<close> are falsy.\<close>

fun truthy :: "field \<Rightarrow> bool" where
  "truthy Absent = False"
| "truthy Null = False"
| "truthy (Text s) = (s \<noteq> [])"

text \<open>
  \<^verbatim>\<open>JSON.stringify\<close> leaves out a key whose value is \<^verbatim>\<open>undefined\<close>.
\<close>

fun field_kv :: "string \<Rightarrow> field \<Rightarrow> (string \<times> json) list" where
  "field_kv k Absent = []"
| "field_kv k Null = [(k, JNull)]"
| "field_kv k (Text s) = [(k, JStr s)]"

subsection \<open>parseInt and the printing of numbers\<close>

text \<open>
  \<^verbatim>\<open>parseInt(s, radix)\<close>: leading white space is skipped, one sign is read, a radix
  other than 0 and outside 2..36 gives \<^verbatim>\<open>NaN\<close>, with no radix (or radix 0 or 16) a
  prefix \<^verbatim>\<open>0x\<close> or \<^verbatim>\<open>0X\<close> is skipped and selects radix 16, and the longest run of
  digits of the radix is the value; no digit at all gives \<^verbatim>\<open>NaN\<close>, here \<open>None\<close>.
  Numbers are mathematical integers: the rounding of a value beyond \<open>2^53\<close> to a
  double and the exponent notation in which such a value prints are not modelled, and
  of the white space characters only those of ASCII are.
\<close>

definition is_js_space :: "char \<Rightarrow> bool" where
  "is_js_space c = (c \<in> {CHR 0x09, CHR 0x0A, CHR 0x0B, CHR 0x0C, CHR 0x0D, CHR '' ''})"

definition digit_val :: "char \<Rightarrow> nat option" where
  "digit_val c =
     (let n = (of_char c :: nat) in
      if 48 \<le> n \<and> n \<le> 57 then Some (n - 48)
      else if 97 \<le> n \<and> n \<le> 122 then Some (n - 87)
      else if 65 \<le> n \<and> n \<le> 90 then Some (n - 55)
      else None)"

definition is_digit_of :: "nat \<Rightarrow> char \<Rightarrow> bool" where
  "is_digit_of R c = (case digit_val c of Some d \<Rightarrow> d < R | None \<Rightarrow> False)"

definition digits_value :: "nat \<Rightarrow> string \<Rightarrow> int" where
  "digits_value R ds = foldl (\<lambda>a c. a * int R + int (the (digit_val c))) 0 ds"

fun strip_sign :: "string \<Rightarrow> int \<times> string" where
  "strip_sign [] = (1, [])"
| "strip_sign (c # cs) =
     (if c = CHR ''-'' then (- 1, cs)
      else if c = CHR ''+'' then (1, cs)
      else (1, c # cs))"

fun strip_hex_prefix :: "string \<Rightarrow> string option" where
  "strip_hex_prefix (a # b # cs) =
     (if a = CHR ''0'' \<and> (b = CHR ''x'' \<or> b = CHR ''X'') then Some cs else None)"
| "strip_hex_prefix cs = None"

definition parseInt :: "string \<Rightarrow> nat option \<Rightarrow> int option" where
  "parseInt s radix =
     (let (sign, s1) = strip_sign (dropWhile is_js_space s);
          r = (case radix of None \<Rightarrow> 0 | Some r \<Rightarrow> r)
      in if r \<noteq> 0 \<and> (r < 2 \<or> 36 < r) then None
         else
           (let (R, s2) =
                  (if r = 0 \<or> r = 16 then
                     (case strip_hex_prefix s1 of
                        Some t \<Rightarrow> (16, t)
                      | None \<Rightarrow> (if r = 0 then 10 else 16, s1))
                   else (r, s1));
                ds = takeWhile (is_digit_of R) s2
            in if ds = [] then None else Some (sign * digits_value R ds)))"

text \<open>
  The decimal text of a number in a template string or in a URL; \<^verbatim>\<open>NaN\<close> prints as
  \<^verbatim>\<open>NaN\<close>.
\<close>

fun show_nat :: "nat \<Rightarrow> string" where
  "show_nat n =
     (if n < 10 then [char_of (48 + n)]
      else show_nat (n div 10) @ [char_of (48 + n mod 10)])"

definition show_int :: "int \<Rightarrow> string" where
  "show_int i = (if i < 0 then CHR ''-'' # show_nat (nat (- i)) else show_nat (nat i))"

definition show_number :: "int option \<Rightarrow> string" where
  "show_number v = (case v of None \<Rightarrow> ''NaN'' | Some i \<Rightarrow> show_int i)"

text \<open>
  An integer as a JavaScript number, a double: an integer of magnitude up to \<open>2^53\<close>
  is a double; a larger one is rounded to 53 significant bits, a tie going to the even
  neighbour. (The magnitudes here stay below \<open>2^64\<close>, far from the largest double.)
\<close>

fun bit_length :: "nat \<Rightarrow> nat" where
  "bit_length n = (if n = 0 then 0 else Suc (bit_length (n div 2)))"

declare bit_length.simps [simp del]

definition js_number :: "int \<Rightarrow> int" where
  "js_number i =
     (if \<bar>i\<bar> \<le> 9007199254740992 then i
      else
        (let a = nat \<bar>i\<bar>;
             k = bit_length a - 53;
             q = a div 2 ^ k;
             r = a mod 2 ^ k;
             up = (2 ^ k < 2 * r \<or> (2 * r = 2 ^ k \<and> odd q))
         in sgn i * int ((if up then q + 1 else q) * 2 ^ k)))"

section \<open>Mini Online Store: controllers/userController.js\<close>

record user =
  u_id :: int
  u_name :: string
  u_email :: string
  u_role :: string

definition users_initial :: "user list" where
  "users_initial =
     [\<lparr>u_id = 1, u_name = ''Alice Johnson'', u_email = ''alice@example.com'', u_role = ''admin''\<rparr>,
      \<lparr>u_id = 2, u_name = ''Bob Smith'', u_email = ''bob@example.com'', u_role = ''customer''\<rparr>,
      \<lparr>u_id = 3, u_name = ''Charlie Lee'', u_email = ''charlie@example.com'', u_role = ''customer''\<rparr>]"

definition user_json :: "user \<Rightarrow> json" where
  "user_json u =
     JObj [(''id'', JNum (u_id u)), (''name'', JStr (u_name u)),
           (''email'', JStr (u_email u)), (''role'', JStr (u_role u))]"

text \<open>
  \<^verbatim>\<open>getUserById\<close>: \<^verbatim>\<open>users.find((u) => u.id === userId)\<close> with
  \<^verbatim>\<open>userId = parseInt(req.params.id, 10)\<close>; \<^verbatim>\<open>NaN\<close> is equal to no id.
\<close>

definition getUserById :: "user list \<Rightarrow> string \<Rightarrow> response" where
  "getUserById users id_param =
     (let userId = parseInt id_param (Some 10) in
      case find (\<lambda>u. Some (u_id u) = userId) users of
        Some u \<Rightarrow> (200, [(''success'', JBool True), (''data'', user_json u)])
      | None \<Rightarrow>
          (404, [(''success'', JBool False),
                 (''message'', JStr (''User with ID '' @ show_number userId @ '' not found.''))]))"

record user_body =
  b_name :: field
  b_email :: field
  b_role :: field

text \<open>The text of a field that passed the truthiness test.\<close>

fun text_of :: "field \<Rightarrow> string" where
  "text_of (Text s) = s"
| "text_of _ = []"

text \<open>The message of the validation; its dash is U+2013, three bytes in UTF-8.\<close>

definition validation_message :: string where
  "validation_message =
     ''Validation Error '' @ [CHR 0xE2, CHR 0x80, CHR 0x93]
       @ '' \"name\" and \"email\" are required fields.''"

text \<open>\<^verbatim>\<open>createUser\<close>: the validation returns early with 400; otherwise the new user takes
  \<^verbatim>\<open>users.length + 1\<close> as id and is pushed onto the array.\<close>

definition createUser :: "user list \<Rightarrow> user_body \<Rightarrow> user list \<times> response" where
  "createUser users body =
     (if \<not> truthy (b_name body) \<or> \<not> truthy (b_email body) then
        (users, (400, [(''success'', JBool False), (''message'', JStr validation_message)]))
      else
        (let newUser = \<lparr>u_id = int (length users) + 1,
                        u_name = text_of (b_name body),
                        u_email = text_of (b_email body),
                        u_role = (if truthy (b_role body) then text_of (b_role body) else ''customer'')\<rparr>
         in (users @ [newUser],
             (201, [(''success'', JBool True),
                    (''message'', JStr ''User created successfully.''),
                    (''data'', user_json newUser)]))))"

section \<open>Mini Online Store: middleware/auth.js and the mount of the users router\<close>

text \<open>
  \<^verbatim>\<open>auth\<close> reads the \<^verbatim>\<open>authorization\<close> header (\<open>None\<close> when the request has none): a
  truthy token lets the request through (\<open>None\<close>), otherwise the answer is 401.
  \<^verbatim>\<open>app.use('/users', auth, userRoutes)\<close> puts it before both user routes.
\<close>

definition unauthorized_message :: string where
  "unauthorized_message =
     ''Unauthorized '' @ [CHR 0xE2, CHR 0x80, CHR 0x93]
       @ '' Please provide a valid token in the Authorization header.''"

definition auth :: "string option \<Rightarrow> response option" where
  "auth token =
     (case token of
        Some tk \<Rightarrow>
          (if tk \<noteq> [] then None
           else Some (401, [(''success'', JBool False), (''message'', JStr unauthorized_message)]))
      | None \<Rightarrow> Some (401, [(''success'', JBool False), (''message'', JStr unauthorized_message)]))"

definition users_get :: "user list \<Rightarrow> string option \<Rightarrow> string \<Rightarrow> response" where
  "users_get users token id_param =
     (case auth token of Some r \<Rightarrow> r | None \<Rightarrow> getUserById users id_param)"

definition users_post :: "user list \<Rightarrow> string option \<Rightarrow> user_body \<Rightarrow> user list \<times> response" where
  "users_post users token body =
     (case auth token of Some r \<Rightarrow> (users, r) | None \<Rightarrow> createUser users body)"

section \<open>CRUD over three databases: the stores\<close>

text \<open>
  The request body of the CRUD routes after
  \<^verbatim>\<open>const { name, email, phone } = req.body\<close>.
\<close>

record crud_body =
  c_name :: field
  c_email :: field
  c_phone :: field

fun is_text :: "field \<Rightarrow> bool" where
  "is_text (Text s) = True"
| "is_text _ = False"

text \<open>
  \<^verbatim>\<open>ORDER BY created_at DESC\<close> and \<^verbatim>\<open>.sort({ createdAt: -1 })\<close>: the rows in descending
  order of the key. Rows with equal keys keep the order in which they are stored (the
  query does not fix their order; the engines scan in storage order).
\<close>

fun insert_desc :: "('a \<Rightarrow> nat) \<Rightarrow> 'a \<Rightarrow> 'a list \<Rightarrow> 'a list" where
  "insert_desc key x [] = [x]"
| "insert_desc key x (y # ys) =
     (if key y \<le> key x then x # y # ys else y # insert_desc key x ys)"

fun order_by_desc :: "('a \<Rightarrow> nat) \<Rightarrow> 'a list \<Rightarrow> 'a list" where
  "order_by_desc key [] = []"
| "order_by_desc key (x # xs) = insert_desc key x (order_by_desc key xs)"

subsection \<open>The users table (config/sqlite.js, config/mysql.js)\<close>

text \<open>
  A row of \<^verbatim>\<open>users\<close>: \<^verbatim>\<open>id\<close>, three \<^verbatim>\<open>NOT NULL\<close> text columns and the two timestamps,
  which default to \<^verbatim>\<open>CURRENT_TIMESTAMP\<close>. A timestamp is a number of clock ticks (seconds
  for the SQL engines). The table is its rows in storage order with the
  auto-increment sequence.
\<close>

record sql_row =
  r_id :: int
  r_name :: string
  r_email :: string
  r_phone :: string
  r_created_at :: nat
  r_updated_at :: nat

record sql_table =
  t_rows :: "sql_row list"
  t_seq :: int

text \<open>A row as the drivers hand it to the route: the id is a JavaScript number.\<close>

definition row_json :: "sql_row \<Rightarrow> json" where
  "row_json r =
     JObj [(''id'', JNum (js_number (r_id r))), (''name'', JStr (r_name r)),
           (''email'', JStr (r_email r)), (''phone'', JStr (r_phone r)),
           (''created_at'', JNum (int (r_created_at r))),
           (''updated_at'', JNum (int (r_updated_at r)))]"

text \<open>The object \<^verbatim>\<open>{ id, name, email, phone }\<close> that the SQL routes answer with after a
  write: the id and the fields of the request, as received.\<close>

definition echo_json :: "json \<Rightarrow> crud_body \<Rightarrow> json" where
  "echo_json i b =
     JObj ((''id'', i) # field_kv ''name'' (c_name b) @ field_kv ''email'' (c_email b)
             @ field_kv ''phone'' (c_phone b))"

definition set_fields :: "crud_body \<Rightarrow> nat \<Rightarrow> sql_row \<Rightarrow> sql_row" where
  "set_fields b now r =
     r\<lparr>r_name := text_of (c_name b), r_email := text_of (c_email b),
       r_phone := text_of (c_phone b), r_updated_at := now\<rparr>"

subsection \<open>SQLite (better-sqlite3)\<close>

text \<open>
  \<^verbatim>\<open>undefined\<close> and \<^verbatim>\<open>null\<close> are bound as \<^verbatim>\<open>NULL\<close>, which the \<^verbatim>\<open>NOT NULL\<close> columns
  refuse; the empty string is a text like any other.
\<close>

definition sqlite_not_null :: "crud_body \<Rightarrow> string option" where
  "sqlite_not_null b =
     (if \<not> is_text (c_name b) then Some ''NOT NULL constraint failed: users.name''
      else if \<not> is_text (c_email b) then Some ''NOT NULL constraint failed: users.email''
      else if \<not> is_text (c_phone b) then Some ''NOT NULL constraint failed: users.phone''
      else None)"

definition max_id :: "sql_row list \<Rightarrow> int" where
  "max_id rows = foldr (\<lambda>r m. max (r_id r) m) rows 0"

text \<open>
  \<^verbatim>\<open>INSERT INTO users (name, email, phone) VALUES (?, ?, ?)\<close> on
  \<^verbatim>\<open>id INTEGER PRIMARY KEY AUTOINCREMENT\<close>: the new id is one more than the largest id
  the table ever held, and the insert fails once the largest 64-bit id is used.
  The result is \<^verbatim>\<open>lastInsertRowid\<close> with the new table.
\<close>

definition sqlite_insert :: "sql_table \<Rightarrow> nat \<Rightarrow> crud_body \<Rightarrow> string + (int \<times> sql_table)" where
  "sqlite_insert t now b =
     (case sqlite_not_null b of
        Some msg \<Rightarrow> Inl msg
      | None \<Rightarrow>
          (let i = max (t_seq t) (max_id (t_rows t)) + 1 in
           if i > 9223372036854775807 then Inl ''database or disk is full''
           else Inr (i, \<lparr>t_rows = t_rows t @
                           [\<lparr>r_id = i, r_name = text_of (c_name b), r_email = text_of (c_email b),
                             r_phone = text_of (c_phone b), r_created_at = now, r_updated_at = now\<rparr>],
                         t_seq = i\<rparr>)))"

definition sqlite_select_all :: "sql_table \<Rightarrow> sql_row list" where
  "sqlite_select_all t = order_by_desc r_created_at (t_rows t)"

text \<open>
  \<^verbatim>\<open>WHERE id = ?\<close> with the route parameter, a text: the engine compares the text with
  the integer column after its own conversion. The conversion is the parameter \<open>C\<close>:
  \<open>C p = Some i\<close> when the text \<open>p\<close> is equal to the integer \<open>i\<close>, \<open>None\<close> when it is
  equal to no integer.
\<close>

definition sqlite_hit :: "(string \<Rightarrow> int option) \<Rightarrow> string \<Rightarrow> sql_row \<Rightarrow> bool" where
  "sqlite_hit C p r = (C p = Some (r_id r))"

definition sqlite_select_by_id :: "(string \<Rightarrow> int option) \<Rightarrow> sql_table \<Rightarrow> string \<Rightarrow> sql_row option" where
  "sqlite_select_by_id C t p = find (sqlite_hit C p) (t_rows t)"

text \<open>
  \<^verbatim>\<open>UPDATE users SET name = ?, email = ?, phone = ?, updated_at = CURRENT_TIMESTAMP WHERE id = ?\<close>:
  the constraints are checked on the rows that are updated, so a statement that matches
  no row succeeds with \<^verbatim>\<open>changes = 0\<close>. The result is \<^verbatim>\<open>changes\<close> with the new table.
\<close>

definition sqlite_update ::
  "(string \<Rightarrow> int option) \<Rightarrow> sql_table \<Rightarrow> nat \<Rightarrow> string \<Rightarrow> crud_body \<Rightarrow> string + (nat \<times> sql_table)" where
  "sqlite_update C t now p b =
     (if \<not> list_ex (sqlite_hit C p) (t_rows t) then Inr (0, t)
      else case sqlite_not_null b of
        Some msg \<Rightarrow> Inl msg
      | None \<Rightarrow>
          Inr (length (filter (sqlite_hit C p) (t_rows t)),
               t\<lparr>t_rows := map (\<lambda>r. if sqlite_hit C p r then set_fields b now r else r) (t_rows t)\<rparr>))"

text \<open>\<^verbatim>\<open>DELETE FROM users WHERE id = ?\<close>, with \<^verbatim>\<open>changes\<close>.\<close>

definition sqlite_delete :: "(string \<Rightarrow> int option) \<Rightarrow> sql_table \<Rightarrow> string \<Rightarrow> nat \<times> sql_table" where
  "sqlite_delete C t p =
     (length (filter (sqlite_hit C p) (t_rows t)),
      t\<lparr>t_rows := filter (\<lambda>r. \<not> sqlite_hit C p r) (t_rows t)\<rparr>)"

section \<open>routes/sqliteRoutes.js\<close>

text \<open>
  \<^verbatim>\<open>getDB()\<close> is \<^verbatim>\<open>undefined\<close> (here \<open>None\<close>) when \<^verbatim>\<open>connectSQLite\<close> failed; then
  \<^verbatim>\<open>db.prepare\<close> throws a \<^verbatim>\<open>TypeError\<close>, which the \<^verbatim>\<open>catch\<close> of every route answers with
  500 and the error's message. \<^verbatim>\<open>result.lastInsertRowid\<close> is a JavaScript number: the
  create route answers with the new id rounded to a double.
\<close>

definition failure :: "nat \<Rightarrow> string \<Rightarrow> response" where
  "failure code msg = (code, [(''success'', JBool False), (''message'', JStr msg)])"

definition no_db_message :: string where
  "no_db_message = ''Cannot read properties of undefined (reading 'prepare')''"

definition sqlite_post_users :: "sql_table option \<Rightarrow> nat \<Rightarrow> crud_body \<Rightarrow> sql_table option \<times> response" where
  "sqlite_post_users db now b =
     (case db of
        None \<Rightarrow> (db, failure 500 no_db_message)
      | Some t \<Rightarrow>
          (case sqlite_insert t now b of
             Inl msg \<Rightarrow> (db, failure 500 msg)
           | Inr (i, t') \<Rightarrow>
               (Some t',
                (201, [(''success'', JBool True), (''data'', echo_json (JNum (js_number i)) b)]))))"

definition sqlite_get_users :: "sql_table option \<Rightarrow> response" where
  "sqlite_get_users db =
     (case db of
        None \<Rightarrow> failure 500 no_db_message
      | Some t \<Rightarrow> (200, [(''success'', JBool True), (''data'', JArr (map row_json (sqlite_select_all t)))]))"

definition sqlite_get_user :: "(string \<Rightarrow> int option) \<Rightarrow> sql_table option \<Rightarrow> string \<Rightarrow> response" where
  "sqlite_get_user C db p =
     (case db of
        None \<Rightarrow> failure 500 no_db_message
      | Some t \<Rightarrow>
          (case sqlite_select_by_id C t p of
             None \<Rightarrow> failure 404 ''User not found''
           | Some r \<Rightarrow> (200, [(''success'', JBool True), (''data'', row_json r)])))"

text \<open>\<^verbatim>\<open>parseInt(req.params.id)\<close> in the answer of an update; \<^verbatim>\<open>NaN\<close> is sent as \<^verbatim>\<open>null\<close>.\<close>

definition param_id_json :: "string \<Rightarrow> json" where
  "param_id_json p = (case parseInt p None of Some i \<Rightarrow> JNum i | None \<Rightarrow> JNull)"

definition sqlite_put_user ::
  "(string \<Rightarrow> int option) \<Rightarrow> sql_table option \<Rightarrow> nat \<Rightarrow> string \<Rightarrow> crud_body \<Rightarrow> sql_table option \<times> response" where
  "sqlite_put_user C db now p b =
     (case db of
        None \<Rightarrow> (db, failure 500 no_db_message)
      | Some t \<Rightarrow>
          (case sqlite_update C t now p b of
             Inl msg \<Rightarrow> (db, failure 500 msg)
           | Inr (changes, t') \<Rightarrow>
               (if changes = 0 then (Some t', failure 404 ''User not found'')
                else (Some t', (200, [(''success'', JBool True), (''data'', echo_json (param_id_json p) b)])))))"

definition sqlite_delete_user ::
  "(string \<Rightarrow> int option) \<Rightarrow> sql_table option \<Rightarrow> string \<Rightarrow> sql_table option \<times> response" where
  "sqlite_delete_user C db p =
     (case db of
        None \<Rightarrow> (db, failure 500 no_db_message)
      | Some t \<Rightarrow>
          (case sqlite_delete C t p of
             (changes, t') \<Rightarrow>
               (if changes = 0 then (Some t', failure 404 ''User not found'')
                else (Some t', (200, [(''success'', JBool True), (''message'', JStr ''User deleted successfully'')])))))"

section \<open>MySQL (mysql2)\<close>

text \<open>
  The pool exists whether or not the server answers. \<open>my_failure = Some msg\<close> is a pool
  whose statements are rejected with the message \<open>msg\<close> (the server is away, the
  database does not exist); the routes answer such a failure from their \<^verbatim>\<open>catch\<close>.
\<close>

record mysql_db =
  my_failure :: "string option"
  my_table :: sql_table

text \<open>\<^verbatim>\<open>pool.execute\<close> refuses \<^verbatim>\<open>undefined\<close> among its parameters before anything is sent.\<close>

definition mysql_bind_error :: "crud_body \<Rightarrow> string option" where
  "mysql_bind_error b =
     (if c_name b = Absent \<or> c_email b = Absent \<or> c_phone b = Absent
      then Some ''Bind parameters must not contain undefined. To pass SQL NULL specify JS null''
      else None)"

text \<open>
  The columns are \<^verbatim>\<open>name VARCHAR(255) NOT NULL\<close>, \<^verbatim>\<open>email VARCHAR(255) NOT NULL\<close> and
  \<^verbatim>\<open>phone VARCHAR(20) NOT NULL\<close>. The server is in strict mode, the default of MySQL 8,
  which rejects \<^verbatim>\<open>NULL\<close> and a text longer than the column.
\<close>

definition quoted :: "string \<Rightarrow> string" where
  "quoted s = [CHR 0x27] @ s @ [CHR 0x27]"

definition mysql_column :: "string \<Rightarrow> nat \<Rightarrow> field \<Rightarrow> string option" where
  "mysql_column col width v =
     (case v of
        Text s \<Rightarrow>
          (if length s > width then Some (''Data too long for column '' @ quoted col @ '' at row 1'')
           else None)
      | _ \<Rightarrow> Some (''Column '' @ quoted col @ '' cannot be null''))"

definition mysql_column_error :: "crud_body \<Rightarrow> string option" where
  "mysql_column_error b =
     (case mysql_column ''name'' 255 (c_name b) of
        Some msg \<Rightarrow> Some msg
      | None \<Rightarrow>
          (case mysql_column ''email'' 255 (c_email b) of
             Some msg \<Rightarrow> Some msg
           | None \<Rightarrow> mysql_column ''phone'' 20 (c_phone b)))"

text \<open>
  \<^verbatim>\<open>INSERT\<close> on \<^verbatim>\<open>id INT AUTO_INCREMENT PRIMARY KEY\<close>: the next value of the counter,
  refused beyond the largest \<^verbatim>\<open>INT\<close> and when a row already has it. The result is
  \<^verbatim>\<open>insertId\<close> with the new table.
\<close>

definition mysql_insert :: "sql_table \<Rightarrow> nat \<Rightarrow> crud_body \<Rightarrow> string + (int \<times> sql_table)" where
  "mysql_insert t now b =
     (case mysql_bind_error b of
        Some msg \<Rightarrow> Inl msg
      | None \<Rightarrow>
          (case mysql_column_error b of
             Some msg \<Rightarrow> Inl msg
           | None \<Rightarrow>
               (let i = t_seq t + 1 in
                if i > 2147483647 then Inl ''Failed to read auto-increment value from storage engine''
                else if list_ex (\<lambda>r. r_id r = i) (t_rows t) then
                  Inl (''Duplicate entry '' @ quoted (show_int i) @ '' for key '' @ quoted ''users.PRIMARY'')
                else Inr (i, \<lparr>t_rows = t_rows t @
                                [\<lparr>r_id = i, r_name = text_of (c_name b), r_email = text_of (c_email b),
                                  r_phone = text_of (c_phone b), r_created_at = now, r_updated_at = now\<rparr>],
                              t_seq = i\<rparr>))))"

definition mysql_select_all :: "sql_table \<Rightarrow> sql_row list" where
  "mysql_select_all t = order_by_desc r_created_at (t_rows t)"

text \<open>
  \<^verbatim>\<open>WHERE id = ?\<close> with the route parameter, a text: the server converts it. The
  conversion is the parameter \<open>C\<close>: \<open>C p = Inr (Some i)\<close> when the text is equal to the
  integer \<open>i\<close>, \<open>Inr None\<close> when it is equal to no integer, \<open>Inl msg\<close> when the server
  rejects the statement for the text.
\<close>

definition mysql_hit :: "int option \<Rightarrow> sql_row \<Rightarrow> bool" where
  "mysql_hit v r = (v = Some (r_id r))"

definition mysql_select_by_id ::
  "(string \<Rightarrow> string + int option) \<Rightarrow> sql_table \<Rightarrow> string \<Rightarrow> string + sql_row list" where
  "mysql_select_by_id C t p =
     (case C p of Inl msg \<Rightarrow> Inl msg | Inr v \<Rightarrow> Inr (filter (mysql_hit v) (t_rows t)))"

text \<open>
  \<^verbatim>\<open>UPDATE users SET name = ?, email = ?, phone = ? WHERE id = ?\<close>. The statement does not
  name \<^verbatim>\<open>updated_at\<close>: the column is \<^verbatim>\<open>ON UPDATE CURRENT_TIMESTAMP\<close>, so the server
  refreshes it on a row whose values change and leaves a row alone that already holds
  the values. \<^verbatim>\<open>affectedRows\<close> counts the rows that match (the driver connects with
  \<^verbatim>\<open>FOUND_ROWS\<close>).
\<close>

definition mysql_set_fields :: "crud_body \<Rightarrow> nat \<Rightarrow> sql_row \<Rightarrow> sql_row" where
  "mysql_set_fields b now r =
     (if r_name r = text_of (c_name b) \<and> r_email r = text_of (c_email b)
         \<and> r_phone r = text_of (c_phone b)
      then r else set_fields b now r)"

definition mysql_update ::
  "(string \<Rightarrow> string + int option) \<Rightarrow> sql_table \<Rightarrow> nat \<Rightarrow> string \<Rightarrow> crud_body \<Rightarrow> string + (nat \<times> sql_table)" where
  "mysql_update C t now p b =
     (case mysql_bind_error b of
        Some msg \<Rightarrow> Inl msg
      | None \<Rightarrow>
          (case C p of
             Inl msg \<Rightarrow> Inl msg
           | Inr v \<Rightarrow>
               (if \<not> list_ex (mysql_hit v) (t_rows t) then Inr (0, t)
                else case mysql_column_error b of
                  Some msg \<Rightarrow> Inl msg
                | None \<Rightarrow>
                    Inr (length (filter (mysql_hit v) (t_rows t)),
                         t\<lparr>t_rows := map (\<lambda>r. if mysql_hit v r then mysql_set_fields b now r else r)
                                        (t_rows t)\<rparr>))))"

definition mysql_delete ::
  "(string \<Rightarrow> string + int option) \<Rightarrow> sql_table \<Rightarrow> string \<Rightarrow> string + (nat \<times> sql_table)" where
  "mysql_delete C t p =
     (case C p of
        Inl msg \<Rightarrow> Inl msg
      | Inr v \<Rightarrow>
          Inr (length (filter (mysql_hit v) (t_rows t)),
               t\<lparr>t_rows := filter (\<lambda>r. \<not> mysql_hit v r) (t_rows t)\<rparr>))"

section \<open>routes/mysqlRoutes.js\<close>

definition mysql_post_users :: "mysql_db \<Rightarrow> nat \<Rightarrow> crud_body \<Rightarrow> mysql_db \<times> response" where
  "mysql_post_users db now b =
     (case my_failure db of
        Some msg \<Rightarrow> (db, failure 500 msg)
      | None \<Rightarrow>
          (case mysql_insert (my_table db) now b of
             Inl msg \<Rightarrow> (db, failure 500 msg)
           | Inr (i, t') \<Rightarrow>
               (db\<lparr>my_table := t'\<rparr>,
                (201, [(''success'', JBool True), (''data'', echo_json (JNum i) b)]))))"

definition mysql_get_users :: "mysql_db \<Rightarrow> response" where
  "mysql_get_users db =
     (case my_failure db of
        Some msg \<Rightarrow> failure 500 msg
      | None \<Rightarrow>
          (200, [(''success'', JBool True),
                 (''data'', JArr (map row_json (mysql_select_all (my_table db))))]))"

definition mysql_get_user :: "(string \<Rightarrow> string + int option) \<Rightarrow> mysql_db \<Rightarrow> string \<Rightarrow> response" where
  "mysql_get_user C db p =
     (case my_failure db of
        Some msg \<Rightarrow> failure 500 msg
      | None \<Rightarrow>
          (case mysql_select_by_id C (my_table db) p of
             Inl msg \<Rightarrow> failure 500 msg
           | Inr [] \<Rightarrow> failure 404 ''User not found''
           | Inr (r # rs) \<Rightarrow> (200, [(''success'', JBool True), (''data'', row_json r)])))"

definition mysql_put_user ::
  "(string \<Rightarrow> string + int option) \<Rightarrow> mysql_db \<Rightarrow> nat \<Rightarrow> string \<Rightarrow> crud_body \<Rightarrow> mysql_db \<times> response" where
  "mysql_put_user C db now p b =
     (case my_failure db of
        Some msg \<Rightarrow> (db, failure 500 msg)
      | None \<Rightarrow>
          (case mysql_update C (my_table db) now p b of
             Inl msg \<Rightarrow> (db, failure 500 msg)
           | Inr (affectedRows, t') \<Rightarrow>
               (if affectedRows = 0 then (db\<lparr>my_table := t'\<rparr>, failure 404 ''User not found'')
                else (db\<lparr>my_table := t'\<rparr>,
                      (200, [(''success'', JBool True), (''data'', echo_json (param_id_json p) b)])))))"

definition mysql_delete_user ::
  "(string \<Rightarrow> string + int option) \<Rightarrow> mysql_db \<Rightarrow> string \<Rightarrow> mysql_db \<times> response" where
  "mysql_delete_user C db p =
     (case my_failure db of
        Some msg \<Rightarrow> (db, failure 500 msg)
      | None \<Rightarrow>
          (case mysql_delete C (my_table db) p of
             Inl msg \<Rightarrow> (db, failure 500 msg)
           | Inr (affectedRows, t') \<Rightarrow>
               (if affectedRows = 0 then (db\<lparr>my_table := t'\<rparr>, failure 404 ''User not found'')
                else (db\<lparr>my_table := t'\<rparr>,
                      (200, [(''success'', JBool True), (''message'', JStr ''User deleted successfully'')])))))"

section \<open>MongoDB (mongoose): config/mongodb.js\<close>

text \<open>
  A document of the model \<^verbatim>\<open>User\<close>: the schema's three required strings, the
  \<^verbatim>\<open>_id\<close> (the hexadecimal text of the ObjectId), the two fields of
  \<^verbatim>\<open>timestamps: true\<close> and the version key.
\<close>

record mongo_doc =
  d_id :: string
  d_name :: string
  d_email :: string
  d_phone :: string
  d_createdAt :: nat
  d_updatedAt :: nat
  d_v :: int

text \<open>\<open>mg_failure = Some msg\<close> is a server that rejects every operation with \<open>msg\<close>.\<close>

record mongo_db =
  mg_failure :: "string option"
  mg_docs :: "mongo_doc list"

definition doc_json :: "mongo_doc \<Rightarrow> json" where
  "doc_json d =
     JObj [(''_id'', JStr (d_id d)), (''name'', JStr (d_name d)),
           (''email'', JStr (d_email d)), (''phone'', JStr (d_phone d)),
           (''createdAt'', JNum (int (d_createdAt d))),
           (''updatedAt'', JNum (int (d_updatedAt d))), (''__v'', JNum (d_v d))]"

text \<open>
  \<^verbatim>\<open>required: true\<close> on a string path fails for \<^verbatim>\<open>undefined\<close>, \<^verbatim>\<open>null\<close> and the empty
  string. The message lists the failing paths.
\<close>

definition required_failures :: "(string \<times> field) list \<Rightarrow> string list" where
  "required_failures kvs =
     map (\<lambda>(k, v). k @ '': Path `'' @ k @ ''` is required.'') (filter (\<lambda>(k, v). \<not> truthy v) kvs)"

fun join_comma :: "string list \<Rightarrow> string" where
  "join_comma [] = []"
| "join_comma [x] = x"
| "join_comma (x # y # ys) = x @ '', '' @ join_comma (y # ys)"

text \<open>
  \<^verbatim>\<open>new MongoUser({ name, email, phone })\<close> with \<^verbatim>\<open>user.save()\<close>. The constructor draws
  the \<^verbatim>\<open>_id\<close>, here the argument \<open>oid\<close>; the server refuses an \<^verbatim>\<open>_id\<close> that a document
  already has.
\<close>

definition mongo_save :: "mongo_doc list \<Rightarrow> nat \<Rightarrow> string \<Rightarrow> crud_body \<Rightarrow> string + (mongo_doc \<times> mongo_doc list)" where
  "mongo_save docs now oid b =
     (case required_failures [(''name'', c_name b), (''email'', c_email b), (''phone'', c_phone b)] of
        e # es \<Rightarrow> Inl (''User validation failed: '' @ join_comma (e # es))
      | [] \<Rightarrow>
          (if list_ex (\<lambda>d. d_id d = oid) docs then Inl ''E11000 duplicate key error''
           else (let d = \<lparr>d_id = oid, d_name = text_of (c_name b), d_email = text_of (c_email b),
                           d_phone = text_of (c_phone b), d_createdAt = now, d_updatedAt = now,
                           d_v = 0\<rparr>
                 in Inr (d, docs @ [d]))))"

definition mongo_find_sorted :: "mongo_doc list \<Rightarrow> mongo_doc list" where
  "mongo_find_sorted docs = order_by_desc d_createdAt docs"

text \<open>
  The route parameter is cast to an ObjectId before the query. The cast is the
  parameter \<open>cast\<close>: \<open>cast p = Some i\<close> is the ObjectId with hexadecimal text \<open>i\<close>,
  \<open>None\<close> is a text that is no ObjectId, for which mongoose throws a \<^verbatim>\<open>CastError\<close>.
\<close>

definition cast_error :: "string \<Rightarrow> string" where
  "cast_error p =
     ''Cast to ObjectId failed for value \"'' @ p @ ''\" (type string) at path \"_id\" for model \"User\"''"

definition mongo_findById :: "(string \<Rightarrow> string option) \<Rightarrow> mongo_doc list \<Rightarrow> string \<Rightarrow> string + mongo_doc option" where
  "mongo_findById cast docs p =
     (case cast p of
        None \<Rightarrow> Inl (cast_error p)
      | Some i \<Rightarrow> Inr (find (\<lambda>d. d_id d = i) docs))"

text \<open>
  \<^verbatim>\<open>findByIdAndUpdate(id, { name, email, phone }, { new: true, runValidators: true })\<close>:
  a key whose value is \<^verbatim>\<open>undefined\<close> is dropped from the update, the validators run on
  the keys that remain, the first document with the id takes the new values and a new
  \<^verbatim>\<open>updatedAt\<close>, and the document after the update is returned, \<^verbatim>\<open>null\<close> when no
  document has the id.
\<close>

definition put_field :: "field \<Rightarrow> string \<Rightarrow> string" where
  "put_field v old = (case v of Absent \<Rightarrow> old | _ \<Rightarrow> text_of v)"

definition mongo_set_fields :: "crud_body \<Rightarrow> nat \<Rightarrow> mongo_doc \<Rightarrow> mongo_doc" where
  "mongo_set_fields b now d =
     d\<lparr>d_name := put_field (c_name b) (d_name d), d_email := put_field (c_email b) (d_email d),
       d_phone := put_field (c_phone b) (d_phone d), d_updatedAt := now\<rparr>"

definition update_failures :: "crud_body \<Rightarrow> string list" where
  "update_failures b =
     required_failures
       (filter (\<lambda>(k, v). v \<noteq> Absent)
          [(''name'', c_name b), (''email'', c_email b), (''phone'', c_phone b)])"

fun update_first :: "('a \<Rightarrow> bool) \<Rightarrow> ('a \<Rightarrow> 'a) \<Rightarrow> 'a list \<Rightarrow> 'a list" where
  "update_first P f [] = []"
| "update_first P f (x # xs) = (if P x then f x # xs else x # update_first P f xs)"

fun delete_first :: "('a \<Rightarrow> bool) \<Rightarrow> 'a list \<Rightarrow> 'a list" where
  "delete_first P [] = []"
| "delete_first P (x # xs) = (if P x then xs else x # delete_first P xs)"

definition mongo_findByIdAndUpdate ::
  "(string \<Rightarrow> string option) \<Rightarrow> mongo_doc list \<Rightarrow> nat \<Rightarrow> string \<Rightarrow> crud_body
     \<Rightarrow> string + (mongo_doc option \<times> mongo_doc list)" where
  "mongo_findByIdAndUpdate cast docs now p b =
     (case cast p of
        None \<Rightarrow> Inl (cast_error p)
      | Some i \<Rightarrow>
          (case update_failures b of
             e # es \<Rightarrow> Inl (''Validation failed: '' @ join_comma (e # es))
           | [] \<Rightarrow>
               (case find (\<lambda>d. d_id d = i) docs of
                  None \<Rightarrow> Inr (None, docs)
                | Some d \<Rightarrow>
                    Inr (Some (mongo_set_fields b now d),
                         update_first (\<lambda>d. d_id d = i) (mongo_set_fields b now) docs))))"

definition mongo_findByIdAndDelete ::
  "(string \<Rightarrow> string option) \<Rightarrow> mongo_doc list \<Rightarrow> string \<Rightarrow> string + (mongo_doc option \<times> mongo_doc list)" where
  "mongo_findByIdAndDelete cast docs p =
     (case cast p of
        None \<Rightarrow> Inl (cast_error p)
      | Some i \<Rightarrow>
          (case find (\<lambda>d. d_id d = i) docs of
             None \<Rightarrow> Inr (None, docs)
           | Some d \<Rightarrow> Inr (Some d, delete_first (\<lambda>d. d_id d = i) docs)))"

section \<open>routes/mongoRoutes.js\<close>

text \<open>
  The router's first layer: \<^verbatim>\<open>isMongoConnected()\<close> reads the flag that
  \<^verbatim>\<open>connectMongoDB\<close> set at start-up. When the flag is false the layer answers 503 and
  does not call \<^verbatim>\<open>next()\<close> (the result \<open>Some\<close> of the answer); otherwise the request goes
  on to its route (\<open>None\<close>).
\<close>

definition mongo_unavailable :: "bool \<Rightarrow> response option" where
  "mongo_unavailable mongoConnected =
     (if \<not> mongoConnected then
        Some (failure 503
          ''MongoDB is not running. Please install & start MongoDB, then restart the server.'')
      else None)"

definition mongo_post_users :: "mongo_db \<Rightarrow> nat \<Rightarrow> string \<Rightarrow> crud_body \<Rightarrow> mongo_db \<times> response" where
  "mongo_post_users db now oid b =
     (case mg_failure db of
        Some msg \<Rightarrow> (db, failure 500 msg)
      | None \<Rightarrow>
          (case mongo_save (mg_docs db) now oid b of
             Inl msg \<Rightarrow> (db, failure 500 msg)
           | Inr (user, docs') \<Rightarrow>
               (db\<lparr>mg_docs := docs'\<rparr>, (201, [(''success'', JBool True), (''data'', doc_json user)]))))"

definition mongo_get_users :: "mongo_db \<Rightarrow> response" where
  "mongo_get_users db =
     (case mg_failure db of
        Some msg \<Rightarrow> failure 500 msg
      | None \<Rightarrow>
          (200, [(''success'', JBool True),
                 (''data'', JArr (map doc_json (mongo_find_sorted (mg_docs db))))]))"

definition mongo_get_user :: "(string \<Rightarrow> string option) \<Rightarrow> mongo_db \<Rightarrow> string \<Rightarrow> response" where
  "mongo_get_user cast db p =
     (case mg_failure db of
        Some msg \<Rightarrow> failure 500 msg
      | None \<Rightarrow>
          (case mongo_findById cast (mg_docs db) p of
             Inl msg \<Rightarrow> failure 500 msg
           | Inr None \<Rightarrow> failure 404 ''User not found''
           | Inr (Some user) \<Rightarrow> (200, [(''success'', JBool True), (''data'', doc_json user)])))"

definition mongo_put_user ::
  "(string \<Rightarrow> string option) \<Rightarrow> mongo_db \<Rightarrow> nat \<Rightarrow> string \<Rightarrow> crud_body \<Rightarrow> mongo_db \<times> response" where
  "mongo_put_user cast db now p b =
     (case mg_failure db of
        Some msg \<Rightarrow> (db, failure 500 msg)
      | None \<Rightarrow>
          (case mongo_findByIdAndUpdate cast (mg_docs db) now p b of
             Inl msg \<Rightarrow> (db, failure 500 msg)
           | Inr (None, docs') \<Rightarrow> (db\<lparr>mg_docs := docs'\<rparr>, failure 404 ''User not found'')
           | Inr (Some user, docs') \<Rightarrow>
               (db\<lparr>mg_docs := docs'\<rparr>, (200, [(''success'', JBool True), (''data'', doc_json user)]))))"

definition mongo_delete_user ::
  "(string \<Rightarrow> string option) \<Rightarrow> mongo_db \<Rightarrow> string \<Rightarrow> mongo_db \<times> response" where
  "mongo_delete_user cast db p =
     (case mg_failure db of
        Some msg \<Rightarrow> (db, failure 500 msg)
      | None \<Rightarrow>
          (case mongo_findByIdAndDelete cast (mg_docs db) p of
             Inl msg \<Rightarrow> (db, failure 500 msg)
           | Inr (None, docs') \<Rightarrow> (db\<lparr>mg_docs := docs'\<rparr>, failure 404 ''User not found'')
           | Inr (Some user, docs') \<Rightarrow>
               (db\<lparr>mg_docs := docs'\<rparr>,
                (200, [(''success'', JBool True), (''message'', JStr ''User deleted successfully'')]))))"

section \<open>server.js: the three routers under their prefixes\<close>

text \<open>
  The five operations that each router serves, and the prefix under which
  \<^verbatim>\<open>app.use\<close> mounts it: \<^verbatim>\<open>/api/mongo\<close>, \<^verbatim>\<open>/api/mysql\<close>, \<^verbatim>\<open>/api/sqlite\<close>.
\<close>

datatype operation =
    ListUsers
  | GetUser string
  | CreateUser crud_body
  | UpdateUser string crud_body
  | DeleteUser string

datatype backend = Mongo | MySQL | SQLite

text \<open>The state of the process: the flag of config/mongodb.js and the three stores.\<close>

record server =
  mongoConnected :: bool
  s_mongo :: mongo_db
  s_mysql :: mysql_db
  s_sqlite :: "sql_table option"

text \<open>
  What a request takes from outside the process: the clock, the ObjectId that the
  driver would draw, and the conversions of a route parameter by the three engines.
\<close>

record env =
  e_now :: nat
  e_oid :: string
  e_sqlite_id :: "string \<Rightarrow> int option"
  e_mysql_id :: "string \<Rightarrow> string + int option"
  e_mongo_cast :: "string \<Rightarrow> string option"

definition mongo_routes :: "env \<Rightarrow> mongo_db \<Rightarrow> operation \<Rightarrow> mongo_db \<times> response" where
  "mongo_routes E db op =
     (case op of
        CreateUser b \<Rightarrow> mongo_post_users db (e_now E) (e_oid E) b
      | ListUsers \<Rightarrow> (db, mongo_get_users db)
      | GetUser p \<Rightarrow> (db, mongo_get_user (e_mongo_cast E) db p)
      | UpdateUser p b \<Rightarrow> mongo_put_user (e_mongo_cast E) db (e_now E) p b
      | DeleteUser p \<Rightarrow> mongo_delete_user (e_mongo_cast E) db p)"

definition mongo_router :: "env \<Rightarrow> bool \<Rightarrow> mongo_db \<Rightarrow> operation \<Rightarrow> mongo_db \<times> response" where
  "mongo_router E connected db op =
     (case mongo_unavailable connected of
        Some r \<Rightarrow> (db, r)
      | None \<Rightarrow> mongo_routes E db op)"

definition mysql_router :: "env \<Rightarrow> mysql_db \<Rightarrow> operation \<Rightarrow> mysql_db \<times> response" where
  "mysql_router E db op =
     (case op of
        CreateUser b \<Rightarrow> mysql_post_users db (e_now E) b
      | ListUsers \<Rightarrow> (db, mysql_get_users db)
      | GetUser p \<Rightarrow> (db, mysql_get_user (e_mysql_id E) db p)
      | UpdateUser p b \<Rightarrow> mysql_put_user (e_mysql_id E) db (e_now E) p b
      | DeleteUser p \<Rightarrow> mysql_delete_user (e_mysql_id E) db p)"

definition sqlite_router :: "env \<Rightarrow> sql_table option \<Rightarrow> operation \<Rightarrow> sql_table option \<times> response" where
  "sqlite_router E db op =
     (case op of
        CreateUser b \<Rightarrow> sqlite_post_users db (e_now E) b
      | ListUsers \<Rightarrow> (db, sqlite_get_users db)
      | GetUser p \<Rightarrow> (db, sqlite_get_user (e_sqlite_id E) db p)
      | UpdateUser p b \<Rightarrow> sqlite_put_user (e_sqlite_id E) db (e_now E) p b
      | DeleteUser p \<Rightarrow> sqlite_delete_user (e_sqlite_id E) db p)"

definition app :: "env \<Rightarrow> server \<Rightarrow> backend \<Rightarrow> operation \<Rightarrow> server \<times> response" where
  "app E srv prefix op =
     (case prefix of
        Mongo \<Rightarrow>
          (case mongo_router E (mongoConnected srv) (s_mongo srv) op of
             (db', r) \<Rightarrow> (srv\<lparr>s_mongo := db'\<rparr>, r))
      | MySQL \<Rightarrow>
          (case mysql_router E (s_mysql srv) op of (db', r) \<Rightarrow> (srv\<lparr>s_mysql := db'\<rparr>, r))
      | SQLite \<Rightarrow>
          (case sqlite_router E (s_sqlite srv) op of (db', r) \<Rightarrow> (srv\<lparr>s_sqlite := db'\<rparr>, r)))"

subsection \<open>Concrete conversions, for evaluating the routes\<close>

text \<open>
  Conversions on which the routes are evaluated. \<open>decimal_id\<close> reads the decimal text
  of an integer as that integer and every other text as equal to no id (an engine may
  convert more texts, as \<^verbatim>\<open>7.0\<close>). \<open>hex24\<close> reads 24 hexadecimal digits as the
  ObjectId with these digits in lower case and no other text as an ObjectId.
\<close>

definition decimal_id :: "string \<Rightarrow> int option" where
  "decimal_id p =
     (case parseInt p (Some 10) of
        Some i \<Rightarrow> (if show_int i = p then Some i else None)
      | None \<Rightarrow> None)"

definition lower_hex :: "char \<Rightarrow> char" where
  "lower_hex c =
     (if 65 \<le> (of_char c :: nat) \<and> (of_char c :: nat) \<le> 70
      then char_of ((of_char c :: nat) + 32) else c)"

definition hex24 :: "string \<Rightarrow> string option" where
  "hex24 p =
     (if length p = 24 \<and> list_all (is_digit_of 16) p then Some (map lower_hex p) else None)"

definition env0 :: "nat \<Rightarrow> string \<Rightarrow> env" where
  "env0 now oid =
     \<lparr>e_now = now, e_oid = oid, e_sqlite_id = decimal_id,
      e_mysql_id = (\<lambda>p. Inr (decimal_id p)), e_mongo_cast = hex24\<rparr>"

definition empty_table :: sql_table where
  "empty_table = \<lparr>t_rows = [], t_seq = 0\<rparr>"

text \<open>The process after a start at which MongoDB did or did not answer, with empty stores.\<close>

definition server0 :: "bool \<Rightarrow> server" where
  "server0 up =
     \<lparr>mongoConnected = up, s_mongo = \<lparr>mg_failure = None, mg_docs = []\<rparr>,
      s_mysql = \<lparr>my_failure = None, my_table = empty_table\<rparr>, s_sqlite = Some empty_table\<rparr>"


text \<open>Sample data: the user of the specification's scenario, as a request, a row and a document.\<close>

definition sample_body :: crud_body where
  "sample_body = \<lparr>c_name = Text ''Dave'', c_email = Text ''dave@x.com'', c_phone = Text ''555''\<rparr>"

definition sample_row :: "int \<Rightarrow> nat \<Rightarrow> sql_row" where
  "sample_row i ts =
     \<lparr>r_id = i, r_name = ''Dave'', r_email = ''dave@x.com'', r_phone = ''555'',
      r_created_at = ts, r_updated_at = ts\<rparr>"

definition sample_oid :: string where
  "sample_oid = ''507f1f77bcf86cd799439011''"

definition sample_doc :: "string \<Rightarrow> nat \<Rightarrow> mongo_doc" where
  "sample_doc i ts =
     \<lparr>d_id = i, d_name = ''Dave'', d_email = ''dave@x.com'', d_phone = ''555'',
      d_createdAt = ts, d_updatedAt = ts, d_v = 0\<rparr>"

text \<open>A table whose last id is \<open>2^53\<close>, the last integer before the doubles thin out.\<close>

definition table_at_2_53 :: sql_table where
  "table_at_2_53 =
     \<lparr>t_rows = [\<lparr>r_id = 9007199254740992, r_name = ''Old'', r_email = ''old@x.com'',
                  r_phone = ''111'', r_created_at = 1, r_updated_at = 1\<rparr>],
      t_seq = 9007199254740992\<rparr>"

definition sample_update :: crud_body where
  "sample_update = \<lparr>c_name = Text ''Dan'', c_email = Text ''dan@x.com'', c_phone = Text ''777''\<rparr>"

section \<open>Predicates of the properties\<close>

text \<open>A list is newest first when the key never increases along it.\<close>

definition newest_first :: "('a \<Rightarrow> nat) \<Rightarrow> 'a list \<Rightarrow> bool" where
  "newest_first key xs = sorted_wrt (\<lambda>a b. key b \<le> key a) xs"

text \<open>
  What an update may do to a row \<open>x\<close>, giving \<open>y\<close>: the id and the creation time stay;
  a row that the statement selects holds the three fields of the request; any other
  row is the same row.
\<close>

definition sql_frame :: "(sql_row \<Rightarrow> bool) \<Rightarrow> crud_body \<Rightarrow> sql_row \<Rightarrow> sql_row \<Rightarrow> bool" where
  "sql_frame hit b x y =
     (r_id y = r_id x \<and> r_created_at y = r_created_at x \<and>
      (if hit x
       then r_name y = text_of (c_name b) \<and> r_email y = text_of (c_email b)
            \<and> r_phone y = text_of (c_phone b)
       else y = x))"

definition doc_frame :: "string \<Rightarrow> mongo_doc \<Rightarrow> mongo_doc \<Rightarrow> bool" where
  "doc_frame i x y =
     (d_id y = d_id x \<and> d_createdAt y = d_createdAt x \<and> d_v y = d_v x \<and>
      (d_id x \<noteq> i \<longrightarrow> y = x))"

text \<open>The stored values of a user without the time of the last update.\<close>

definition stored_fields :: "sql_row \<Rightarrow> int \<times> string \<times> string \<times> string \<times> nat" where
  "stored_fields r = (r_id r, r_name r, r_email r, r_phone r, r_created_at r)"

definition doc_fields :: "mongo_doc \<Rightarrow> string \<times> string \<times> string \<times> string \<times> nat" where
  "doc_fields d = (d_id d, d_name d, d_email d, d_phone d, d_createdAt d)"

definition sqlite_rows :: "sql_table option \<Rightarrow> sql_row list" where
  "sqlite_rows db = (case db of None \<Rightarrow> [] | Some t \<Rightarrow> t_rows t)"

section \<open>Auxiliary facts\<close>

subsection \<open>Lists\<close>

lemma filter_none: "\<forall>x\<in>set xs. \<not> P x \<Longrightarrow> filter P xs = []"
  by (induction xs) auto

lemma list_all2_map_self: "(\<And>x. x \<in> set xs \<Longrightarrow> R x (f x)) \<Longrightarrow> list_all2 R xs (map f xs)"
  by (induction xs) auto

lemma filter_hit_nonempty: "list_ex P xs \<Longrightarrow> length (filter P xs) \<noteq> 0"
  by (induction xs) auto

lemma find_append_new:
  assumes "\<forall>x\<in>set xs. \<not> P x" and "P y"
  shows "find P (xs @ [y]) = Some y"
  using assms by (induction xs) auto

lemma find_none_iff_all: "find P xs = None \<longleftrightarrow> (\<forall>x\<in>set xs. \<not> P x)"
  by (induction xs) auto

lemma find_SomeD: "find P xs = Some x \<Longrightarrow> x \<in> set xs \<and> P x"
  by (induction xs) (auto split: if_splits)

lemma update_first_none: "\<forall>x\<in>set xs. \<not> P x \<Longrightarrow> update_first P f xs = xs"
  by (induction xs) auto

lemma delete_first_none: "\<forall>x\<in>set xs. \<not> P x \<Longrightarrow> delete_first P xs = xs"
  by (induction xs) auto

subsection \<open>Ordering\<close>

lemma mset_insert_desc: "mset (insert_desc key x xs) = add_mset x (mset xs)"
  by (induction xs) auto

lemma mset_order_by_desc: "mset (order_by_desc key xs) = mset xs"
  by (induction xs) (auto simp: mset_insert_desc)

lemma set_insert_desc: "set (insert_desc key x xs) = insert x (set xs)"
  by (induction xs) auto

lemma newest_first_insert_desc:
  "newest_first key xs \<Longrightarrow> newest_first key (insert_desc key x xs)"
  unfolding newest_first_def
  by (induction xs) (auto simp: set_insert_desc)

lemma newest_first_order_by_desc: "newest_first key (order_by_desc key xs)"
proof (induction xs)
  case Nil
  show ?case by (simp add: newest_first_def)
next
  case (Cons x xs)
  then show ?case by (simp add: newest_first_insert_desc)
qed

subsection \<open>SQLite\<close>

lemma le_max_id: "r \<in> set rows \<Longrightarrow> r_id r \<le> max_id rows"
  unfolding max_id_def by (induction rows) auto

lemma max_id_nonneg: "0 \<le> max_id rows"
  unfolding max_id_def by (induction rows) auto

lemma js_number_safe: "0 \<le> i \<Longrightarrow> i \<le> 9007199254740992 \<Longrightarrow> js_number i = i"
  by (simp add: js_number_def)

lemma sqlite_create_then_get:
  assumes n: "c_name b = Text n" and e: "c_email b = Text e" and ph: "c_phone b = Text ph"
    and i: "i = max (t_seq t) (max_id (t_rows t)) + 1"
    and small: "i \<le> 9007199254740992"
    and C: "C (show_int i) = Some i"
  shows "\<exists>db'. sqlite_post_users (Some t) now b =
            (db', (201, [(''success'', JBool True),
                         (''data'', JObj [(''id'', JNum i), (''name'', JStr n),
                                          (''email'', JStr e), (''phone'', JStr ph)])]))
          \<and> sqlite_get_user C db' (show_int i) =
               (200, [(''success'', JBool True),
                      (''data'', row_json \<lparr>r_id = i, r_name = n, r_email = e, r_phone = ph,
                                           r_created_at = now, r_updated_at = now\<rparr>)])"
proof -
  let ?new = "\<lparr>r_id = i, r_name = n, r_email = e, r_phone = ph,
                r_created_at = now, r_updated_at = now\<rparr>"
  let ?t' = "\<lparr>t_rows = t_rows t @ [?new], t_seq = i\<rparr>"
  have ins: "sqlite_insert t now b = Inr (i, ?t')"
  proof -
    have "\<not> i > 9223372036854775807" using small by simp
    then show ?thesis
      using n e ph i unfolding sqlite_insert_def sqlite_not_null_def Let_def by simp
  qed
  have post: "sqlite_post_users (Some t) now b =
      (Some ?t', (201, [(''success'', JBool True),
                         (''data'', JObj [(''id'', JNum i), (''name'', JStr n),
                                          (''email'', JStr e), (''phone'', JStr ph)])]))"
  proof -
    have "0 \<le> i" using i max_id_nonneg [of "t_rows t"] by simp
    then have "js_number i = i" using small by (simp add: js_number_safe)
    then show ?thesis
      using n e ph by (simp add: sqlite_post_users_def ins echo_json_def)
  qed
  have old: "\<forall>r\<in>set (t_rows t). \<not> sqlite_hit C (show_int i) r"
  proof
    fix r assume "r \<in> set (t_rows t)"
    then have "r_id r \<le> max_id (t_rows t)" by (rule le_max_id)
    then have "r_id r < i" using i by simp
    then show "\<not> sqlite_hit C (show_int i) r" by (simp add: sqlite_hit_def C)
  qed
  have "sqlite_hit C (show_int i) ?new" by (simp add: sqlite_hit_def C)
  with old have "find (sqlite_hit C (show_int i)) (t_rows t @ [?new]) = Some ?new"
    by (rule find_append_new)
  then have get: "sqlite_get_user C (Some ?t') (show_int i) =
      (200, [(''success'', JBool True), (''data'', row_json ?new)])"
    by (simp add: sqlite_get_user_def sqlite_select_by_id_def)
  from post get show ?thesis by blast
qed

lemma sqlite_delete_unknown:
  assumes "\<forall>r\<in>set (t_rows t). \<not> sqlite_hit C p r"
  shows "sqlite_delete_user C (Some t) p = (Some t, failure 404 ''User not found'')"
proof -
  have a: "filter (sqlite_hit C p) (t_rows t) = []" using assms by (rule filter_none)
  have b: "filter (\<lambda>r. \<not> sqlite_hit C p r) (t_rows t) = t_rows t" using assms by simp
  show ?thesis by (simp add: sqlite_delete_user_def sqlite_delete_def a b)
qed

lemma sqlite_delete_200:
  assumes "status_of (snd (sqlite_delete_user C db p)) = 200"
  shows "\<exists>t. db = Some t \<and> (\<exists>r\<in>set (t_rows t). sqlite_hit C p r)
           \<and> fst (sqlite_delete_user C db p) = Some (t\<lparr>t_rows := filter (\<lambda>r. \<not> sqlite_hit C p r) (t_rows t)\<rparr>)"
proof (cases db)
  case None
  with assms show ?thesis by (simp add: sqlite_delete_user_def status_of_def failure_def)
next
  case (Some t)
  show ?thesis
  proof (cases "filter (sqlite_hit C p) (t_rows t) = []")
    case True
    with assms Some show ?thesis by (simp add: sqlite_delete_user_def sqlite_delete_def status_of_def failure_def)
  next
    case False
    then obtain r where "r \<in> set (t_rows t)" "sqlite_hit C p r"
      by (metis filter_none)
    with False Some show ?thesis by (auto simp: sqlite_delete_user_def sqlite_delete_def)
  qed
qed

lemma sql_frame_set_fields:
  "sql_frame hit b x (if hit x then set_fields b now x else x)"
  by (simp add: sql_frame_def set_fields_def)

lemma sqlite_update_cases:
  "sqlite_update C t now p b = Inr (0, t) \<and> \<not> list_ex (sqlite_hit C p) (t_rows t)
   \<or> (\<exists>msg. sqlite_update C t now p b = Inl msg)
   \<or> (list_ex (sqlite_hit C p) (t_rows t) \<and> sqlite_not_null b = None \<and>
       sqlite_update C t now p b =
         Inr (length (filter (sqlite_hit C p) (t_rows t)),
              t\<lparr>t_rows := map (\<lambda>r. if sqlite_hit C p r then set_fields b now r else r) (t_rows t)\<rparr>))"
  by (cases "sqlite_not_null b") (simp_all add: sqlite_update_def)

lemma sqlite_put_frame:
  assumes ok: "status_of (snd (sqlite_put_user C (Some t) now p b)) = 200"
  shows "\<exists>t'. fst (sqlite_put_user C (Some t) now p b) = Some t' \<and> t_seq t' = t_seq t \<and>
           list_all2 (sql_frame (sqlite_hit C p) b) (t_rows t) (t_rows t')"
proof -
  let ?f = "\<lambda>r. if sqlite_hit C p r then set_fields b now r else r"
  from sqlite_update_cases[of C t now p b]
  consider (miss) "sqlite_update C t now p b = Inr (0, t)"
    | (err) msg where "sqlite_update C t now p b = Inl msg"
    | (hit) "list_ex (sqlite_hit C p) (t_rows t)"
        "sqlite_update C t now p b =
           Inr (length (filter (sqlite_hit C p) (t_rows t)), t\<lparr>t_rows := map ?f (t_rows t)\<rparr>)"
    by blast
  then show ?thesis
  proof cases
    case miss
    with ok show ?thesis by (simp add: sqlite_put_user_def status_of_def failure_def)
  next
    case err
    with ok show ?thesis by (simp add: sqlite_put_user_def status_of_def failure_def)
  next
    case hit
    have fr: "list_all2 (sql_frame (sqlite_hit C p) b) (t_rows t) (map ?f (t_rows t))"
      by (rule list_all2_map_self) (rule sql_frame_set_fields)
    from hit(1) have "length (filter (sqlite_hit C p) (t_rows t)) \<noteq> 0" by (rule filter_hit_nonempty)
    then have "fst (sqlite_put_user C (Some t) now p b) = Some (t\<lparr>t_rows := map ?f (t_rows t)\<rparr>)"
      by (simp add: sqlite_put_user_def hit(2))
    with fr show ?thesis by simp
  qed
qed

lemma hit_set_fields: "sqlite_hit C p (set_fields b now r) = sqlite_hit C p r"
  by (simp add: sqlite_hit_def set_fields_def)

lemma stored_set_fields_twice:
  "stored_fields (set_fields b n2 (set_fields b n1 r)) = stored_fields (set_fields b n1 r)"
  by (simp add: stored_fields_def set_fields_def)

lemma list_ex_map_hit:
  "list_ex (sqlite_hit C p) (map (\<lambda>r. if sqlite_hit C p r then set_fields b n1 r else r) rows)
   = list_ex (sqlite_hit C p) rows"
  by (induction rows) (simp_all add: hit_set_fields)

lemma sqlite_put_table:
  "fst (sqlite_put_user C db now p b) =
     (case db of
        None \<Rightarrow> None
      | Some t \<Rightarrow>
          Some (if list_ex (sqlite_hit C p) (t_rows t) \<and> sqlite_not_null b = None
                then t\<lparr>t_rows := map (\<lambda>r. if sqlite_hit C p r then set_fields b now r else r) (t_rows t)\<rparr>
                else t))"
  by (cases db; cases "sqlite_not_null b")
     (simp_all add: sqlite_put_user_def sqlite_update_def)

lemma sqlite_put_twice:
  "map stored_fields (sqlite_rows (fst (sqlite_put_user C (fst (sqlite_put_user C db n1 p b)) n2 p b)))
   = map stored_fields (sqlite_rows (fst (sqlite_put_user C db n1 p b)))"
proof (cases db)
  case None
  then show ?thesis by (simp add: sqlite_put_table)
next
  case (Some t)
  show ?thesis
  proof (cases "list_ex (sqlite_hit C p) (t_rows t) \<and> sqlite_not_null b = None")
    case True
    then show ?thesis
      using Some by (simp add: sqlite_put_table sqlite_rows_def list_ex_map_hit hit_set_fields stored_set_fields_twice)
  next
    case False
    then show ?thesis
      using Some by (auto simp: sqlite_put_table sqlite_rows_def)
  qed
qed

subsection \<open>MySQL\<close>

lemma mysql_create_then_get:
  assumes n: "c_name b = Text n" and e: "c_email b = Text e" and ph: "c_phone b = Text ph"
    and ln: "length n \<le> 255" and le: "length e \<le> 255" and lp: "length ph \<le> 20"
    and up: "my_failure db = None"
    and i: "i = t_seq (my_table db) + 1"
    and small: "i \<le> 2147483647"
    and fresh: "\<forall>r\<in>set (t_rows (my_table db)). r_id r \<noteq> i"
    and C: "C (show_int i) = Inr (Some i)"
  shows "\<exists>db'. mysql_post_users db now b =
            (db', (201, [(''success'', JBool True),
                         (''data'', JObj [(''id'', JNum i), (''name'', JStr n),
                                          (''email'', JStr e), (''phone'', JStr ph)])]))
          \<and> mysql_get_user C db' (show_int i) =
               (200, [(''success'', JBool True),
                      (''data'', row_json \<lparr>r_id = i, r_name = n, r_email = e, r_phone = ph,
                                           r_created_at = now, r_updated_at = now\<rparr>)])"
proof -
  let ?new = "\<lparr>r_id = i, r_name = n, r_email = e, r_phone = ph,
                r_created_at = now, r_updated_at = now\<rparr>"
  let ?t' = "\<lparr>t_rows = t_rows (my_table db) @ [?new], t_seq = i\<rparr>"
  have nodup: "\<not> list_ex (\<lambda>r. r_id r = i) (t_rows (my_table db))"
    using fresh by (simp add: list_ex_iff)
  have ins: "mysql_insert (my_table db) now b = Inr (i, ?t')"
    using n e ph ln le lp i small nodup
    by (simp add: mysql_insert_def mysql_bind_error_def mysql_column_error_def mysql_column_def Let_def)
  have post: "mysql_post_users db now b =
      (db\<lparr>my_table := ?t'\<rparr>, (201, [(''success'', JBool True),
                         (''data'', JObj [(''id'', JNum i), (''name'', JStr n),
                                          (''email'', JStr e), (''phone'', JStr ph)])]))"
    using n e ph up by (simp add: mysql_post_users_def ins echo_json_def)
  have old: "filter (mysql_hit (Some i)) (t_rows (my_table db)) = []"
    using fresh by (intro filter_none) (auto simp: mysql_hit_def)
  have "filter (mysql_hit (Some i)) (t_rows (my_table db) @ [?new]) = [?new]"
    by (simp add: old mysql_hit_def)
  then have get: "mysql_get_user C (db\<lparr>my_table := ?t'\<rparr>) (show_int i) =
      (200, [(''success'', JBool True), (''data'', row_json ?new)])"
    using up by (simp add: mysql_get_user_def mysql_select_by_id_def C)
  from post get show ?thesis by blast
qed

lemma mysql_delete_unknown:
  assumes up: "my_failure db = None" and C: "C p = Inr v"
    and miss: "\<forall>r\<in>set (t_rows (my_table db)). \<not> mysql_hit v r"
  shows "mysql_delete_user C db p = (db, failure 404 ''User not found'')"
proof -
  have a: "filter (mysql_hit v) (t_rows (my_table db)) = []" using miss by (rule filter_none)
  have b: "filter (\<lambda>r. \<not> mysql_hit v r) (t_rows (my_table db)) = t_rows (my_table db)"
    using miss by simp
  show ?thesis by (simp add: mysql_delete_user_def mysql_delete_def up C a b)
qed

lemma mysql_delete_200:
  assumes "status_of (snd (mysql_delete_user C db p)) = 200"
  shows "\<exists>v. C p = Inr v \<and> (\<exists>r\<in>set (t_rows (my_table db)). mysql_hit v r)
           \<and> fst (mysql_delete_user C db p) =
               db\<lparr>my_table := (my_table db)\<lparr>t_rows := filter (\<lambda>r. \<not> mysql_hit v r) (t_rows (my_table db))\<rparr>\<rparr>"
proof (cases "my_failure db")
  case (Some m)
  with assms show ?thesis by (simp add: mysql_delete_user_def status_of_def failure_def)
next
  case None
  show ?thesis
  proof (cases "C p")
    case (Inl m)
    with assms None show ?thesis
      by (simp add: mysql_delete_user_def mysql_delete_def status_of_def failure_def)
  next
    case (Inr v)
    show ?thesis
    proof (cases "filter (mysql_hit v) (t_rows (my_table db)) = []")
      case True
      with assms None Inr show ?thesis
        by (simp add: mysql_delete_user_def mysql_delete_def status_of_def failure_def)
    next
      case False
      then obtain r where "r \<in> set (t_rows (my_table db))" "mysql_hit v r"
        by (metis filter_none)
      with False None Inr show ?thesis
        by (auto simp: mysql_delete_user_def mysql_delete_def)
    qed
  qed
qed

lemma mysql_put_table:
  "fst (mysql_put_user C db now p b) =
     (case my_failure db of
        Some m \<Rightarrow> db
      | None \<Rightarrow>
          (case C p of
             Inl m \<Rightarrow> db
           | Inr v \<Rightarrow>
               (if mysql_bind_error b = None \<and> list_ex (mysql_hit v) (t_rows (my_table db))
                   \<and> mysql_column_error b = None
                then db\<lparr>my_table := (my_table db)\<lparr>t_rows :=
                        map (\<lambda>r. if mysql_hit v r then mysql_set_fields b now r else r)
                          (t_rows (my_table db))\<rparr>\<rparr>
                else db)))"
  by (cases "my_failure db"; cases "C p"; cases "mysql_bind_error b"; cases "mysql_column_error b")
     (simp_all add: mysql_put_user_def mysql_update_def)

lemma mysql_put_status_200:
  assumes "status_of (snd (mysql_put_user C db now p b)) = 200"
  shows "\<exists>v. my_failure db = None \<and> C p = Inr v \<and> mysql_bind_error b = None
           \<and> list_ex (mysql_hit v) (t_rows (my_table db)) \<and> mysql_column_error b = None"
  using assms
  by (cases "my_failure db"; cases "C p"; cases "mysql_bind_error b"; cases "mysql_column_error b")
     (auto simp: mysql_put_user_def mysql_update_def status_of_def failure_def split: if_splits)

lemma sql_frame_mysql_set_fields:
  "sql_frame hit b x (if hit x then mysql_set_fields b now x else x)"
  by (simp add: sql_frame_def mysql_set_fields_def set_fields_def)

lemma mysql_put_frame:
  assumes ok: "status_of (snd (mysql_put_user C db now p b)) = 200" and C: "C p = Inr v"
  shows "\<exists>t'. fst (mysql_put_user C db now p b) = db\<lparr>my_table := t'\<rparr> \<and> t_seq t' = t_seq (my_table db) \<and>
           list_all2 (sql_frame (mysql_hit v) b) (t_rows (my_table db)) (t_rows t')"
proof -
  let ?f = "\<lambda>r. if mysql_hit v r then mysql_set_fields b now r else r"
  from mysql_put_status_200[OF ok] C
  have h: "my_failure db = None" "mysql_bind_error b = None"
    "list_ex (mysql_hit v) (t_rows (my_table db))" "mysql_column_error b = None"
    by auto
  have fr: "list_all2 (sql_frame (mysql_hit v) b) (t_rows (my_table db)) (map ?f (t_rows (my_table db)))"
    by (rule list_all2_map_self) (rule sql_frame_mysql_set_fields)
  have "fst (mysql_put_user C db now p b) =
      db\<lparr>my_table := (my_table db)\<lparr>t_rows := map ?f (t_rows (my_table db))\<rparr>\<rparr>"
    by (simp add: mysql_put_table h C)
  with fr show ?thesis by (intro exI[of _ "(my_table db)\<lparr>t_rows := map ?f (t_rows (my_table db))\<rparr>"]) simp
qed

lemma mysql_hit_set_fields: "mysql_hit v (mysql_set_fields b now r) = mysql_hit v r"
  by (simp add: mysql_hit_def mysql_set_fields_def set_fields_def)

lemma mysql_stored_twice:
  "stored_fields (mysql_set_fields b n2 (mysql_set_fields b n1 r)) = stored_fields (mysql_set_fields b n1 r)"
  by (simp add: stored_fields_def mysql_set_fields_def set_fields_def)

lemma mysql_list_ex_map:
  "list_ex (mysql_hit v) (map (\<lambda>r. if mysql_hit v r then mysql_set_fields b n1 r else r) rows)
   = list_ex (mysql_hit v) rows"
  by (induction rows) (simp_all add: mysql_hit_set_fields)

lemma mysql_put_twice:
  "map stored_fields (t_rows (my_table (fst (mysql_put_user C (fst (mysql_put_user C db n1 p b)) n2 p b))))
   = map stored_fields (t_rows (my_table (fst (mysql_put_user C db n1 p b))))"
proof (cases "my_failure db")
  case (Some m)
  then show ?thesis by (simp add: mysql_put_table)
next
  case None
  show ?thesis
  proof (cases "C p")
    case (Inl m)
    with None show ?thesis by (simp add: mysql_put_table)
  next
    case (Inr v)
    show ?thesis
    proof (cases "mysql_bind_error b = None \<and> list_ex (mysql_hit v) (t_rows (my_table db))
                   \<and> mysql_column_error b = None")
      case True
      then show ?thesis
        using None Inr
        by (simp add: mysql_put_table mysql_list_ex_map mysql_hit_set_fields mysql_stored_twice)
    next
      case False
      then show ?thesis
        using None Inr by (auto simp: mysql_put_table)
    qed
  qed
qed

subsection \<open>MongoDB\<close>

lemma mongo_create_then_get:
  assumes n: "c_name b = Text n" and e: "c_email b = Text e" and ph: "c_phone b = Text ph"
    and nn: "n \<noteq> []" and ne: "e \<noteq> []" and np: "ph \<noteq> []"
    and up: "mg_failure db = None"
    and fresh: "\<forall>d\<in>set (mg_docs db). d_id d \<noteq> e_oid E"
    and C: "e_mongo_cast E (e_oid E) = Some (e_oid E)"
  shows "\<exists>db'. mongo_router E True db (CreateUser b) =
            (db', (201, [(''success'', JBool True),
                         (''data'', doc_json \<lparr>d_id = e_oid E, d_name = n, d_email = e, d_phone = ph,
                                d_createdAt = e_now E, d_updatedAt = e_now E, d_v = 0\<rparr>)]))
          \<and> mongo_router E True db' (GetUser (e_oid E)) =
               (db', (200, [(''success'', JBool True),
                      (''data'', doc_json \<lparr>d_id = e_oid E, d_name = n, d_email = e, d_phone = ph,
                                d_createdAt = e_now E, d_updatedAt = e_now E, d_v = 0\<rparr>)]))"
proof -
  let ?new = "\<lparr>d_id = e_oid E, d_name = n, d_email = e, d_phone = ph,
                                d_createdAt = e_now E, d_updatedAt = e_now E, d_v = 0\<rparr>"
  let ?db' = "db\<lparr>mg_docs := mg_docs db @ [?new]\<rparr>"
  have nodup: "\<not> list_ex (\<lambda>d. d_id d = e_oid E) (mg_docs db)"
    using fresh by (simp add: list_ex_iff)
  have sv: "mongo_save (mg_docs db) (e_now E) (e_oid E) b = Inr (?new, mg_docs db @ [?new])"
    using n e ph nn ne np nodup by (simp add: mongo_save_def required_failures_def Let_def)
  have post: "mongo_router E True db (CreateUser b) =
      (?db', (201, [(''success'', JBool True), (''data'', doc_json ?new)]))"
    using up by (simp add: mongo_router_def mongo_unavailable_def mongo_routes_def mongo_post_users_def sv)
  have "find (\<lambda>d. d_id d = e_oid E) (mg_docs db @ [?new]) = Some ?new"
    using fresh by (intro find_append_new) simp_all
  then have get: "mongo_router E True ?db' (GetUser (e_oid E)) =
      (?db', (200, [(''success'', JBool True), (''data'', doc_json ?new)]))"
    using up by (simp add: mongo_router_def mongo_unavailable_def mongo_routes_def mongo_get_user_def
        mongo_findById_def C)
  from post get show ?thesis by blast
qed

lemma mongo_delete_unknown:
  assumes up: "mg_failure db = None" and C: "cast p = Some i"
    and miss: "\<forall>d\<in>set (mg_docs db). d_id d \<noteq> i"
  shows "mongo_delete_user cast db p = (db, failure 404 ''User not found'')"
proof -
  have "find (\<lambda>d. d_id d = i) (mg_docs db) = None" using miss by (simp add: find_none_iff_all)
  then show ?thesis
    by (simp add: mongo_delete_user_def mongo_findByIdAndDelete_def up C)
qed

lemma mongo_delete_200:
  assumes "status_of (snd (mongo_delete_user cast db p)) = 200"
  shows "\<exists>i. cast p = Some i \<and> (\<exists>d\<in>set (mg_docs db). d_id d = i)
           \<and> fst (mongo_delete_user cast db p) =
               db\<lparr>mg_docs := delete_first (\<lambda>d. d_id d = i) (mg_docs db)\<rparr>"
proof (cases "mg_failure db")
  case (Some m)
  with assms show ?thesis by (simp add: mongo_delete_user_def status_of_def failure_def)
next
  case None
  show ?thesis
  proof (cases "cast p")
    case n: None
    with assms None show ?thesis
      by (simp add: mongo_delete_user_def mongo_findByIdAndDelete_def status_of_def failure_def)
  next
    case (Some i)
    show ?thesis
    proof (cases "find (\<lambda>d. d_id d = i) (mg_docs db)")
      case n: None
      with assms None Some show ?thesis
        by (simp add: mongo_delete_user_def mongo_findByIdAndDelete_def status_of_def failure_def)
    next
      case s: (Some d)
      then have d: "d \<in> set (mg_docs db)" "d_id d = i"
        by (auto dest: find_SomeD)
      have st: "mongo_delete_user cast db p =
          (db\<lparr>mg_docs := delete_first (\<lambda>d. d_id d = i) (mg_docs db)\<rparr>,
           (200, [(''success'', JBool True), (''message'', JStr ''User deleted successfully'')]))"
        by (simp add: mongo_delete_user_def mongo_findByIdAndDelete_def None Some s)
      show ?thesis
        unfolding st using Some d by auto
    qed
  qed
qed

lemma mongo_put_table:
  "fst (mongo_put_user cast db now p b) =
     (case mg_failure db of
        Some m \<Rightarrow> db
      | None \<Rightarrow>
          (case cast p of
             None \<Rightarrow> db
           | Some i \<Rightarrow>
               (if update_failures b = []
                then db\<lparr>mg_docs := update_first (\<lambda>d. d_id d = i) (mongo_set_fields b now) (mg_docs db)\<rparr>
                else db)))"
proof (cases "mg_failure db")
  case (Some m)
  then show ?thesis by (simp add: mongo_put_user_def)
next
  case None
  show ?thesis
  proof (cases "cast p")
    case n: None
    with None show ?thesis by (simp add: mongo_put_user_def mongo_findByIdAndUpdate_def)
  next
    case (Some i)
    show ?thesis
    proof (cases "find (\<lambda>d. d_id d = i) (mg_docs db)")
      case n: None
      then have "update_first (\<lambda>d. d_id d = i) (mongo_set_fields b now) (mg_docs db) = mg_docs db"
        by (intro update_first_none) (simp add: find_none_iff_all)
      with n None Some show ?thesis
        by (simp add: mongo_put_user_def mongo_findByIdAndUpdate_def split: list.splits)
    next
      case s: (Some d)
      with None Some show ?thesis
        by (simp add: mongo_put_user_def mongo_findByIdAndUpdate_def split: list.splits)
    qed
  qed
qed

lemma doc_frame_same: "doc_frame i d d"
  by (simp add: doc_frame_def)

lemma doc_frame_set: "d_id d = i \<Longrightarrow> doc_frame i d (mongo_set_fields b now d)"
  by (simp add: doc_frame_def mongo_set_fields_def)

lemma doc_frame_update_first:
  "list_all2 (doc_frame i) docs (update_first (\<lambda>d. d_id d = i) (mongo_set_fields b now) docs)"
proof (induction docs)
  case Nil
  show ?case by simp
next
  case (Cons d ds)
  have refl: "list_all2 (doc_frame i) ds ds"
    by (simp add: list_all2_same doc_frame_same)
  show ?case using Cons refl by (simp add: doc_frame_same doc_frame_set)
qed

lemma list_all2_doc_frame_refl: "list_all2 (doc_frame i) docs docs"
  by (simp add: list_all2_same doc_frame_same)

lemma mongo_put_frame:
  assumes C: "cast p = Some i"
  shows "\<exists>docs'. fst (mongo_put_user cast db now p b) = db\<lparr>mg_docs := docs'\<rparr> \<and>
           list_all2 (doc_frame i) (mg_docs db) docs'"
proof (cases "mg_failure db = None \<and> update_failures b = []")
  case False
  then have "fst (mongo_put_user cast db now p b) = db"
    using C by (cases "mg_failure db") (simp_all add: mongo_put_table)
  then have "fst (mongo_put_user cast db now p b) = db\<lparr>mg_docs := mg_docs db\<rparr>" by simp
  moreover have "list_all2 (doc_frame i) (mg_docs db) (mg_docs db)" by (rule list_all2_doc_frame_refl)
  ultimately show ?thesis by (intro exI[of _ "mg_docs db"] conjI)
next
  case True
  then have "fst (mongo_put_user cast db now p b) =
     db\<lparr>mg_docs := update_first (\<lambda>d. d_id d = i) (mongo_set_fields b now) (mg_docs db)\<rparr>"
    using C by (simp add: mongo_put_table)
  moreover have "list_all2 (doc_frame i) (mg_docs db)
      (update_first (\<lambda>d. d_id d = i) (mongo_set_fields b now) (mg_docs db))"
    by (rule doc_frame_update_first)
  ultimately show ?thesis
    by (intro exI[of _ "update_first (\<lambda>d. d_id d = i) (mongo_set_fields b now) (mg_docs db)"] conjI)
qed

lemma put_field_twice: "put_field v (put_field v old) = put_field v old"
  by (cases v) (simp_all add: put_field_def)

lemma doc_fields_twice:
  "doc_fields (mongo_set_fields b n2 (mongo_set_fields b n1 d)) = doc_fields (mongo_set_fields b n1 d)"
  by (simp add: doc_fields_def mongo_set_fields_def put_field_twice)

lemma update_first_twice:
  "map doc_fields (update_first (\<lambda>d. d_id d = i) (mongo_set_fields b n2)
       (update_first (\<lambda>d. d_id d = i) (mongo_set_fields b n1) docs))
   = map doc_fields (update_first (\<lambda>d. d_id d = i) (mongo_set_fields b n1) docs)"
proof (induction docs)
  case Nil
  show ?case by simp
next
  case (Cons d ds)
  have keep: "d_id (mongo_set_fields b n1 d) = d_id d" by (simp add: mongo_set_fields_def)
  show ?case using Cons by (simp add: keep doc_fields_twice)
qed

lemma mongo_put_twice:
  "map doc_fields (mg_docs (fst (mongo_put_user cast (fst (mongo_put_user cast db n1 p b)) n2 p b)))
   = map doc_fields (mg_docs (fst (mongo_put_user cast db n1 p b)))"
proof (cases "mg_failure db")
  case (Some m)
  then show ?thesis by (simp add: mongo_put_table)
next
  case None
  show ?thesis
  proof (cases "cast p")
    case n: None
    with None show ?thesis by (simp add: mongo_put_table)
  next
    case (Some i)
    with None show ?thesis by (simp add: mongo_put_table update_first_twice)
  qed
qed

subsection \<open>The answers to a create request\<close>

lemma sqlite_post_status:
  "status_of (snd (sqlite_post_users db now b)) = 201 \<or> status_of (snd (sqlite_post_users db now b)) = 500"
  by (simp add: sqlite_post_users_def status_of_def failure_def split: option.splits sum.splits prod.splits)

lemma mysql_post_status:
  "status_of (snd (mysql_post_users db now b)) = 201 \<or> status_of (snd (mysql_post_users db now b)) = 500"
  by (simp add: mysql_post_users_def status_of_def failure_def split: option.splits sum.splits prod.splits)

lemma mongo_post_status:
  "status_of (snd (mongo_router E c db (CreateUser b))) = 201
   \<or> status_of (snd (mongo_router E c db (CreateUser b))) = 500
   \<or> status_of (snd (mongo_router E c db (CreateUser b))) = 503"
  by (simp add: mongo_router_def mongo_unavailable_def mongo_routes_def mongo_post_users_def
      status_of_def failure_def split: option.splits sum.splits prod.splits)

lemma sqlite_not_null_missing:
  "\<not> is_text (c_name b) \<or> \<not> is_text (c_email b) \<Longrightarrow> \<exists>msg. sqlite_not_null b = Some msg"
  by (auto simp: sqlite_not_null_def)

lemma sqlite_post_missing:
  assumes "\<not> is_text (c_name b) \<or> \<not> is_text (c_email b)"
  shows "status_of (snd (sqlite_post_users db now b)) = 500 \<and> fst (sqlite_post_users db now b) = db"
proof -
  from assms obtain msg where "sqlite_not_null b = Some msg"
    using sqlite_not_null_missing by blast
  then have "\<And>t. sqlite_insert t now b = Inl msg" by (simp add: sqlite_insert_def)
  then show ?thesis
    by (cases db) (simp_all add: sqlite_post_users_def status_of_def failure_def)
qed

lemma mysql_insert_missing:
  assumes "\<not> is_text (c_name b) \<or> \<not> is_text (c_email b)"
  shows "\<exists>msg. mysql_insert t now b = Inl msg"
proof (cases "mysql_bind_error b")
  case (Some m)
  then show ?thesis by (simp add: mysql_insert_def)
next
  case None
  then have na: "c_name b \<noteq> Absent" "c_email b \<noteq> Absent"
    by (auto simp: mysql_bind_error_def split: if_splits)
  with assms have "c_name b = Null \<or> c_email b = Null"
    by (cases "c_name b"; cases "c_email b") auto
  then have "\<exists>m. mysql_column_error b = Some m"
    by (cases "c_name b"; cases "c_email b") (auto simp: mysql_column_error_def mysql_column_def)
  then show ?thesis using None by (auto simp: mysql_insert_def)
qed

lemma mysql_post_missing:
  assumes "\<not> is_text (c_name b) \<or> \<not> is_text (c_email b)"
  shows "status_of (snd (mysql_post_users db now b)) = 500 \<and> fst (mysql_post_users db now b) = db"
proof -
  from mysql_insert_missing[OF assms] obtain msg where "mysql_insert (my_table db) now b = Inl msg"
    by blast
  then show ?thesis
    by (cases "my_failure db") (simp_all add: mysql_post_users_def status_of_def failure_def)
qed

lemma mongo_save_missing:
  assumes "\<not> truthy (c_name b) \<or> \<not> truthy (c_email b)"
  shows "\<exists>msg. mongo_save docs now oid b = Inl msg"
proof -
  have "required_failures [(''name'', c_name b), (''email'', c_email b), (''phone'', c_phone b)] \<noteq> []"
    using assms by (auto simp: required_failures_def)
  then show ?thesis
    by (cases "required_failures [(''name'', c_name b), (''email'', c_email b), (''phone'', c_phone b)]")
       (simp_all add: mongo_save_def)
qed

lemma mongo_post_missing:
  assumes "\<not> truthy (c_name b) \<or> \<not> truthy (c_email b)"
  shows "status_of (snd (mongo_router E True db (CreateUser b))) = 500
         \<and> fst (mongo_router E True db (CreateUser b)) = db"
proof -
  from mongo_save_missing[OF assms] obtain msg
    where "mongo_save (mg_docs db) (e_now E) (e_oid E) b = Inl msg" by blast
  then show ?thesis
    by (cases "mg_failure db")
       (simp_all add: mongo_router_def mongo_unavailable_def mongo_routes_def mongo_post_users_def
          status_of_def failure_def)
qed

lemma createUser_invalid:
  assumes "\<not> truthy (b_name body) \<or> \<not> truthy (b_email body)"
  shows "createUser users body =
      (users, (400, [(''success'', JBool False), (''message'', JStr validation_message)]))"
  using assms by (auto simp: createUser_def)

section \<open>Mini Online Store: the user controller\<close>

lemma parseInt_abc: "parseInt ''abc'' (Some 10) = None"
  by code_simp

lemma parseInt_99: "parseInt ''99'' (Some 10) = Some 99"
  by code_simp

lemma show_number_99: "show_number (Some 99) = ''99''"
  by code_simp

text \<open>
  C10. \<^verbatim>\<open>getUserById\<close> answers 404 with \<^verbatim>\<open>success: false\<close> and a message whenever
  \<^verbatim>\<open>parseInt(req.params.id, 10)\<close> is the id of no stored user; a text without digits
  parses to \<^verbatim>\<open>NaN\<close>, which is the id of no user. The handler has no other answer than
  200 and 404, so it never answers 500.
\<close>

theorem getUserById_unknown_id:
  "((\<forall>u\<in>set users. parseInt p (Some 10) \<noteq> Some (u_id u)) \<longrightarrow>
      getUserById users p =
        (404, [(''success'', JBool False),
               (''message'',
                JStr (''User with ID '' @ show_number (parseInt p (Some 10)) @ '' not found.''))]))
   \<and> (parseInt p (Some 10) = None \<longrightarrow>
        getUserById users p =
          (404, [(''success'', JBool False), (''message'', JStr ''User with ID NaN not found.'')]))
   \<and> (status_of (getUserById users p) = 200 \<or> status_of (getUserById users p) = 404)"
proof (intro conjI impI)
  assume h: "\<forall>u\<in>set users. parseInt p (Some 10) \<noteq> Some (u_id u)"
  have "find (\<lambda>u. Some (u_id u) = parseInt p (Some 10)) users = None"
    using h by (auto simp: find_none_iff_all)
  then show "getUserById users p =
        (404, [(''success'', JBool False),
               (''message'',
                JStr (''User with ID '' @ show_number (parseInt p (Some 10)) @ '' not found.''))])"
    by (simp add: getUserById_def Let_def)
next
  assume n: "parseInt p (Some 10) = None"
  then have "find (\<lambda>u. Some (u_id u) = parseInt p (Some 10)) users = None"
    by (simp add: find_none_iff_all)
  then show "getUserById users p =
          (404, [(''success'', JBool False), (''message'', JStr ''User with ID NaN not found.'')])"
    using n by (simp add: getUserById_def Let_def show_number_def)
next
  show "status_of (getUserById users p) = 200 \<or> status_of (getUserById users p) = 404"
    by (simp add: getUserById_def status_of_def Let_def split: option.splits)
qed

theorem getUserById_unknown_id_witness:
  "getUserById users_initial ''99'' =
     (404, [(''success'', JBool False), (''message'', JStr ''User with ID 99 not found.'')])
   \<and> getUserById users_initial ''abc'' =
     (404, [(''success'', JBool False), (''message'', JStr ''User with ID NaN not found.'')])"
proof
  have "\<forall>u\<in>set users_initial. parseInt ''99'' (Some 10) \<noteq> Some (u_id u)"
    by (simp add: users_initial_def parseInt_99)
  with getUserById_unknown_id [of users_initial "''99''"]
  show "getUserById users_initial ''99'' =
     (404, [(''success'', JBool False), (''message'', JStr ''User with ID 99 not found.'')])"
    by (simp add: parseInt_99 show_number_99)
next
  from getUserById_unknown_id [of users_initial "''abc''"]
  show "getUserById users_initial ''abc'' =
     (404, [(''success'', JBool False), (''message'', JStr ''User with ID NaN not found.'')])"
    by (simp add: parseInt_abc show_number_def)
qed

text \<open>
  C9. \<^verbatim>\<open>createUser\<close> with a non-empty name and email always appends a user whose id is
  the length of the array plus one: the email is compared with no stored email, and the
  id depends on the array only through its length.
\<close>

theorem createUser_id_from_length:
  "truthy (b_name body) \<and> truthy (b_email body) \<longrightarrow>
   createUser users body =
     (users @ [\<lparr>u_id = int (length users) + 1, u_name = text_of (b_name body),
                u_email = text_of (b_email body),
                u_role = (if truthy (b_role body) then text_of (b_role body) else ''customer'')\<rparr>],
      (201, [(''success'', JBool True), (''message'', JStr ''User created successfully.''),
             (''data'', user_json
                \<lparr>u_id = int (length users) + 1, u_name = text_of (b_name body),
                 u_email = text_of (b_email body),
                 u_role = (if truthy (b_role body) then text_of (b_role body) else ''customer'')\<rparr>)]))"
  by (simp add: createUser_def Let_def)

theorem createUser_id_from_length_witness:
  "createUser users_initial
     \<lparr>b_name = Text ''Alice Again'', b_email = Text ''alice@example.com'', b_role = Absent\<rparr> =
     (users_initial @
        [\<lparr>u_id = 4, u_name = ''Alice Again'', u_email = ''alice@example.com'', u_role = ''customer''\<rparr>],
      (201, [(''success'', JBool True), (''message'', JStr ''User created successfully.''),
             (''data'', user_json
                \<lparr>u_id = 4, u_name = ''Alice Again'', u_email = ''alice@example.com'',
                 u_role = ''customer''\<rparr>)]))"
  using createUser_id_from_length
    [of "\<lparr>b_name = Text ''Alice Again'', b_email = Text ''alice@example.com'', b_role = Absent\<rparr>"
        users_initial]
  by (simp add: users_initial_def)

section \<open>The MongoDB router when the flag is false\<close>





section \<open>Validation of a create request\<close>

text \<open>
  C1, as stated, fails on the CRUD routers: they have no validation. On SQLite a
  request without \<^verbatim>\<open>name\<close> reaches the store, which refuses the row, and the answer is
  500; a request whose \<^verbatim>\<open>name\<close> is the empty string is stored and answered 201.
\<close>

theorem sqlite_post_users_without_name_counterexample:
  "\<not> truthy Absent \<and> \<not> truthy (Text [])
   \<and> status_of (snd (sqlite_post_users (Some empty_table) 5
        \<lparr>c_name = Absent, c_email = Text ''dave@x.com'', c_phone = Text ''555''\<rparr>)) = 500
   \<and> fst (sqlite_post_users (Some empty_table) 5
        \<lparr>c_name = Absent, c_email = Text ''dave@x.com'', c_phone = Text ''555''\<rparr>) =
      Some empty_table
   \<and> sqlite_post_users (Some empty_table) 5
        \<lparr>c_name = Text [], c_email = Text ''dave@x.com'', c_phone = Text ''555''\<rparr> =
      (Some \<lparr>t_rows = [\<lparr>r_id = 1, r_name = [], r_email = ''dave@x.com'', r_phone = ''555'',
                           r_created_at = 5, r_updated_at = 5\<rparr>], t_seq = 1\<rparr>,
       (201, [(''success'', JBool True),
              (''data'', JObj [(''id'', JNum 1), (''name'', JStr []),
                               (''email'', JStr ''dave@x.com''), (''phone'', JStr ''555'')])]))"
  by (simp add: sqlite_post_users_def sqlite_insert_def sqlite_not_null_def status_of_def
      empty_table_def max_id_def echo_json_def failure_def js_number_def Let_def)

text \<open>
  C1, amended. In the Mini Online Store a create request that carries a token and
  whose \<^verbatim>\<open>name\<close> or \<^verbatim>\<open>email\<close> is missing, \<^verbatim>\<open>null\<close> or empty is answered 400 with
  \<^verbatim>\<open>success: false\<close>, and the users array is unchanged. The three CRUD routers never
  answer a create request with 400: the answer is 201 or 500 (or 503 from the MongoDB
  router); a request without a \<^verbatim>\<open>name\<close> or \<^verbatim>\<open>email\<close> is answered 500 by the SQL
  routers, and a request without a non-empty \<^verbatim>\<open>name\<close> or \<^verbatim>\<open>email\<close> is answered 500 by
  the connected MongoDB router, and the store is unchanged.
\<close>

theorem post_users_validation:
  "((\<not> truthy (b_name body) \<or> \<not> truthy (b_email body)) \<longrightarrow>
      createUser users body =
        (users, (400, [(''success'', JBool False), (''message'', JStr validation_message)])))
   \<and> (tk \<noteq> [] \<longrightarrow> users_post users (Some tk) body = createUser users body)
   \<and> (status_of (snd (sqlite_post_users sdb now b)) = 201
        \<or> status_of (snd (sqlite_post_users sdb now b)) = 500)
   \<and> (status_of (snd (mysql_post_users mdb now b)) = 201
        \<or> status_of (snd (mysql_post_users mdb now b)) = 500)
   \<and> (status_of (snd (mongo_router E c gdb (CreateUser b))) = 201
        \<or> status_of (snd (mongo_router E c gdb (CreateUser b))) = 500
        \<or> status_of (snd (mongo_router E c gdb (CreateUser b))) = 503)
   \<and> ((\<not> is_text (c_name b) \<or> \<not> is_text (c_email b)) \<longrightarrow>
        status_of (snd (sqlite_post_users sdb now b)) = 500
        \<and> fst (sqlite_post_users sdb now b) = sdb
        \<and> status_of (snd (mysql_post_users mdb now b)) = 500
        \<and> fst (mysql_post_users mdb now b) = mdb)
   \<and> ((\<not> truthy (c_name b) \<or> \<not> truthy (c_email b)) \<longrightarrow>
        status_of (snd (mongo_router E True gdb (CreateUser b))) = 500
        \<and> fst (mongo_router E True gdb (CreateUser b)) = gdb)"
proof (intro conjI impI)
  assume "\<not> truthy (b_name body) \<or> \<not> truthy (b_email body)"
  then show "createUser users body =
        (users, (400, [(''success'', JBool False), (''message'', JStr validation_message)]))"
    by (rule createUser_invalid)
next
  assume "tk \<noteq> []"
  then show "users_post users (Some tk) body = createUser users body"
    by (simp add: users_post_def auth_def)
next
  show "status_of (snd (sqlite_post_users sdb now b)) = 201
        \<or> status_of (snd (sqlite_post_users sdb now b)) = 500"
    by (rule sqlite_post_status)
next
  show "status_of (snd (mysql_post_users mdb now b)) = 201
        \<or> status_of (snd (mysql_post_users mdb now b)) = 500"
    by (rule mysql_post_status)
next
  show "status_of (snd (mongo_router E c gdb (CreateUser b))) = 201
        \<or> status_of (snd (mongo_router E c gdb (CreateUser b))) = 500
        \<or> status_of (snd (mongo_router E c gdb (CreateUser b))) = 503"
    by (rule mongo_post_status)
next
  assume h: "\<not> is_text (c_name b) \<or> \<not> is_text (c_email b)"
  from sqlite_post_missing [OF h]
  show "status_of (snd (sqlite_post_users sdb now b)) = 500" by simp
  from sqlite_post_missing [OF h]
  show "fst (sqlite_post_users sdb now b) = sdb" by simp
  from mysql_post_missing [OF h]
  show "status_of (snd (mysql_post_users mdb now b)) = 500" by simp
  from mysql_post_missing [OF h]
  show "fst (mysql_post_users mdb now b) = mdb" by simp
next
  assume h: "\<not> truthy (c_name b) \<or> \<not> truthy (c_email b)"
  from mongo_post_missing [OF h]
  show "status_of (snd (mongo_router E True gdb (CreateUser b))) = 500" by simp
  from mongo_post_missing [OF h]
  show "fst (mongo_router E True gdb (CreateUser b)) = gdb" by simp
qed

theorem post_users_validation_witness:
  "users_post users_initial (Some ''Bearer test'')
       \<lparr>b_name = Text [], b_email = Text ''eve@x.com'', b_role = Absent\<rparr> =
     (users_initial, (400, [(''success'', JBool False), (''message'', JStr validation_message)]))
   \<and> status_of (snd (sqlite_post_users (Some empty_table) 5
        \<lparr>c_name = Absent, c_email = Text ''dave@x.com'', c_phone = Text ''555''\<rparr>)) = 500
   \<and> status_of (snd (mysql_post_users \<lparr>my_failure = None, my_table = empty_table\<rparr> 5
        \<lparr>c_name = Absent, c_email = Text ''dave@x.com'', c_phone = Text ''555''\<rparr>)) = 500
   \<and> status_of (snd (mongo_router (env0 5 ''507f1f77bcf86cd799439011'') True
        \<lparr>mg_failure = None, mg_docs = []\<rparr>
        (CreateUser \<lparr>c_name = Absent, c_email = Text ''dave@x.com'', c_phone = Text ''555''\<rparr>))) = 500"
  using post_users_validation
    [of "\<lparr>b_name = Text [], b_email = Text ''eve@x.com'', b_role = Absent\<rparr>" users_initial
        "''Bearer test''" "Some empty_table" 5 "\<lparr>c_name = Absent, c_email = Text ''dave@x.com'', c_phone = Text ''555''\<rparr>"
        "\<lparr>my_failure = None, my_table = empty_table\<rparr>"
        "env0 5 ''507f1f77bcf86cd799439011''" True "\<lparr>mg_failure = None, mg_docs = []\<rparr>"]
  by simp

section \<open>Listing the users\<close>

text \<open>
  C2, as stated, fails: the envelope of the list routes has no \<^verbatim>\<open>count\<close> field. The
  routes send \<^verbatim>\<open>{ success: true, data: users }\<close>; on the empty stores the answer of each
  of the three routers is 200 with \<^verbatim>\<open>data\<close> the empty list, and \<^verbatim>\<open>count\<close> is not a
  field of it.
\<close>

theorem get_users_count_counterexample:
  "sqlite_get_users (Some empty_table) = (200, [(''success'', JBool True), (''data'', JArr [])])
   \<and> \<not> has_field (sqlite_get_users (Some empty_table)) ''count''
   \<and> \<not> has_field (mysql_get_users \<lparr>my_failure = None, my_table = empty_table\<rparr>) ''count''
   \<and> \<not> has_field (mongo_get_users \<lparr>mg_failure = None, mg_docs = []\<rparr>) ''count''"
  by (simp add: sqlite_get_users_def mysql_get_users_def mongo_get_users_def has_field_def
      sqlite_select_all_def mysql_select_all_def mongo_find_sorted_def empty_table_def)

text \<open>
  C2, amended. For every backend whose store answers, the list route responds 200
  with an envelope of exactly the two fields \<^verbatim>\<open>success: true\<close> and \<^verbatim>\<open>data\<close>, the list of
  the stored users; no answer of a list route has a \<^verbatim>\<open>count\<close> field. After zero creates
  \<^verbatim>\<open>data\<close> is the empty list, not an error.
\<close>

theorem get_users_envelope:
  "sqlite_get_users (Some t) =
     (200, [(''success'', JBool True), (''data'', JArr (map row_json (sqlite_select_all t)))])
   \<and> (my_failure mdb = None \<longrightarrow>
        mysql_get_users mdb =
          (200, [(''success'', JBool True),
                 (''data'', JArr (map row_json (mysql_select_all (my_table mdb))))]))
   \<and> (mg_failure gdb = None \<longrightarrow>
        mongo_router E True gdb ListUsers =
          (gdb, (200, [(''success'', JBool True),
                       (''data'', JArr (map doc_json (mongo_find_sorted (mg_docs gdb))))])))
   \<and> \<not> has_field (sqlite_get_users sdb) ''count''
   \<and> \<not> has_field (mysql_get_users mdb) ''count''
   \<and> \<not> has_field (snd (mongo_router E c gdb ListUsers)) ''count''
   \<and> (t_rows t = [] \<longrightarrow> sqlite_select_all t = [])
   \<and> (t_rows (my_table mdb) = [] \<longrightarrow> mysql_select_all (my_table mdb) = [])
   \<and> (mg_docs gdb = [] \<longrightarrow> mongo_find_sorted (mg_docs gdb) = [])"
proof (intro conjI impI)
  show "sqlite_get_users (Some t) =
     (200, [(''success'', JBool True), (''data'', JArr (map row_json (sqlite_select_all t)))])"
    by (simp add: sqlite_get_users_def)
next
  assume "my_failure mdb = None"
  then show "mysql_get_users mdb =
          (200, [(''success'', JBool True),
                 (''data'', JArr (map row_json (mysql_select_all (my_table mdb))))])"
    by (simp add: mysql_get_users_def)
next
  assume "mg_failure gdb = None"
  then show "mongo_router E True gdb ListUsers =
          (gdb, (200, [(''success'', JBool True),
                       (''data'', JArr (map doc_json (mongo_find_sorted (mg_docs gdb))))]))"
    by (simp add: mongo_router_def mongo_unavailable_def mongo_routes_def mongo_get_users_def)
next
  show "\<not> has_field (sqlite_get_users sdb) ''count''"
    by (cases sdb) (simp_all add: sqlite_get_users_def has_field_def failure_def)
next
  show "\<not> has_field (mysql_get_users mdb) ''count''"
    by (cases "my_failure mdb") (simp_all add: mysql_get_users_def has_field_def failure_def)
next
  show "\<not> has_field (snd (mongo_router E c gdb ListUsers)) ''count''"
    by (cases c; cases "mg_failure gdb")
       (simp_all add: mongo_router_def mongo_unavailable_def mongo_routes_def mongo_get_users_def
          has_field_def failure_def)
next
  assume "t_rows t = []"
  then show "sqlite_select_all t = []" by (simp add: sqlite_select_all_def)
next
  assume "t_rows (my_table mdb) = []"
  then show "mysql_select_all (my_table mdb) = []" by (simp add: mysql_select_all_def)
next
  assume "mg_docs gdb = []"
  then show "mongo_find_sorted (mg_docs gdb) = []" by (simp add: mongo_find_sorted_def)
qed

theorem get_users_envelope_witness:
  "mysql_get_users \<lparr>my_failure = None, my_table = empty_table\<rparr> =
     (200, [(''success'', JBool True), (''data'', JArr [])])
   \<and> mongo_router (env0 5 ''507f1f77bcf86cd799439011'') True \<lparr>mg_failure = None, mg_docs = []\<rparr>
        ListUsers =
     (\<lparr>mg_failure = None, mg_docs = []\<rparr>, (200, [(''success'', JBool True), (''data'', JArr [])]))
   \<and> sqlite_select_all empty_table = []"
  using get_users_envelope
    [of empty_table "\<lparr>my_failure = None, my_table = empty_table\<rparr>"
        "\<lparr>mg_failure = None, mg_docs = []\<rparr>" "env0 5 ''507f1f77bcf86cd799439011''"]
  by (simp add: empty_table_def)

text \<open>
  C6. The list route of every backend answers with the stored users in descending
  order of their creation time: the list of the answer is newest first and holds
  exactly the stored users.
\<close>

theorem get_users_newest_first:
  "field_of (sqlite_get_users (Some t)) ''data'' = Some (JArr (map row_json (sqlite_select_all t)))
   \<and> newest_first r_created_at (sqlite_select_all t)
   \<and> mset (sqlite_select_all t) = mset (t_rows t)
   \<and> (my_failure mdb = None \<longrightarrow>
        field_of (mysql_get_users mdb) ''data'' =
          Some (JArr (map row_json (mysql_select_all (my_table mdb)))))
   \<and> newest_first r_created_at (mysql_select_all (my_table mdb))
   \<and> mset (mysql_select_all (my_table mdb)) = mset (t_rows (my_table mdb))
   \<and> (mg_failure gdb = None \<longrightarrow>
        field_of (snd (mongo_router E True gdb ListUsers)) ''data'' =
          Some (JArr (map doc_json (mongo_find_sorted (mg_docs gdb)))))
   \<and> newest_first d_createdAt (mongo_find_sorted (mg_docs gdb))
   \<and> mset (mongo_find_sorted (mg_docs gdb)) = mset (mg_docs gdb)"
proof (intro conjI impI)
  show "field_of (sqlite_get_users (Some t)) ''data'' = Some (JArr (map row_json (sqlite_select_all t)))"
    by (simp add: sqlite_get_users_def field_of_def)
next
  show "newest_first r_created_at (sqlite_select_all t)"
    unfolding sqlite_select_all_def by (rule newest_first_order_by_desc)
next
  show "mset (sqlite_select_all t) = mset (t_rows t)"
    unfolding sqlite_select_all_def by (rule mset_order_by_desc)
next
  assume "my_failure mdb = None"
  then show "field_of (mysql_get_users mdb) ''data'' =
          Some (JArr (map row_json (mysql_select_all (my_table mdb))))"
    by (simp add: mysql_get_users_def field_of_def)
next
  show "newest_first r_created_at (mysql_select_all (my_table mdb))"
    unfolding mysql_select_all_def by (rule newest_first_order_by_desc)
next
  show "mset (mysql_select_all (my_table mdb)) = mset (t_rows (my_table mdb))"
    unfolding mysql_select_all_def by (rule mset_order_by_desc)
next
  assume "mg_failure gdb = None"
  then show "field_of (snd (mongo_router E True gdb ListUsers)) ''data'' =
          Some (JArr (map doc_json (mongo_find_sorted (mg_docs gdb))))"
    by (simp add: mongo_router_def mongo_unavailable_def mongo_routes_def mongo_get_users_def
        field_of_def)
next
  show "newest_first d_createdAt (mongo_find_sorted (mg_docs gdb))"
    unfolding mongo_find_sorted_def by (rule newest_first_order_by_desc)
next
  show "mset (mongo_find_sorted (mg_docs gdb)) = mset (mg_docs gdb)"
    unfolding mongo_find_sorted_def by (rule mset_order_by_desc)
qed

lemma sample_rows_sorted:
  "sqlite_select_all
     \<lparr>t_rows = [\<lparr>r_id = 1, r_name = ''A'', r_email = ''a@x'', r_phone = ''1'',
                  r_created_at = 10, r_updated_at = 10\<rparr>,
                \<lparr>r_id = 2, r_name = ''B'', r_email = ''b@x'', r_phone = ''2'',
                  r_created_at = 30, r_updated_at = 30\<rparr>,
                \<lparr>r_id = 3, r_name = ''C'', r_email = ''c@x'', r_phone = ''3'',
                  r_created_at = 20, r_updated_at = 20\<rparr>], t_seq = 3\<rparr> =
     [\<lparr>r_id = 2, r_name = ''B'', r_email = ''b@x'', r_phone = ''2'',
        r_created_at = 30, r_updated_at = 30\<rparr>,
      \<lparr>r_id = 3, r_name = ''C'', r_email = ''c@x'', r_phone = ''3'',
        r_created_at = 20, r_updated_at = 20\<rparr>,
      \<lparr>r_id = 1, r_name = ''A'', r_email = ''a@x'', r_phone = ''1'',
        r_created_at = 10, r_updated_at = 10\<rparr>]"
  by (simp add: sqlite_select_all_def)

theorem get_users_newest_first_witness:
  "newest_first r_created_at
     [\<lparr>r_id = 2, r_name = ''B'', r_email = ''b@x'', r_phone = ''2'',
        r_created_at = 30, r_updated_at = 30\<rparr>,
      \<lparr>r_id = 3, r_name = ''C'', r_email = ''c@x'', r_phone = ''3'',
        r_created_at = 20, r_updated_at = 20\<rparr>,
      \<lparr>r_id = 1, r_name = ''A'', r_email = ''a@x'', r_phone = ''1'',
        r_created_at = 10, r_updated_at = 10\<rparr>]
   \<and> field_of (mysql_get_users \<lparr>my_failure = None, my_table = empty_table\<rparr>) ''data'' =
       Some (JArr [])
   \<and> field_of (snd (mongo_router (env0 5 ''507f1f77bcf86cd799439011'') True
         \<lparr>mg_failure = None, mg_docs = []\<rparr> ListUsers)) ''data'' = Some (JArr [])"
  using get_users_newest_first
    [of "\<lparr>t_rows = [\<lparr>r_id = 1, r_name = ''A'', r_email = ''a@x'', r_phone = ''1'',
                  r_created_at = 10, r_updated_at = 10\<rparr>,
                \<lparr>r_id = 2, r_name = ''B'', r_email = ''b@x'', r_phone = ''2'',
                  r_created_at = 30, r_updated_at = 30\<rparr>,
                \<lparr>r_id = 3, r_name = ''C'', r_email = ''c@x'', r_phone = ''3'',
                  r_created_at = 20, r_updated_at = 20\<rparr>], t_seq = 3\<rparr>"
        "\<lparr>my_failure = None, my_table = empty_table\<rparr>"
        "\<lparr>mg_failure = None, mg_docs = []\<rparr>" "env0 5 ''507f1f77bcf86cd799439011''"]
  unfolding sample_rows_sorted
  by (simp add: empty_table_def mysql_select_all_def mongo_find_sorted_def)

section \<open>Deleting a user\<close>

lemma decimal_id_7: "decimal_id ''7'' = Some 7"
  by code_simp

lemma hex24_sample: "hex24 sample_oid = Some sample_oid"
  by code_simp

lemma hex24_abc: "hex24 ''abc'' = None"
  by code_simp

lemma mongo_router_connected: "mongo_router E True db op = mongo_routes E db op"
  by (simp add: mongo_router_def mongo_unavailable_def)

lemma mongo_router_not_200:
  "status_of (snd (mongo_router E False db op)) \<noteq> 200"
  by (simp add: mongo_router_def mongo_unavailable_def status_of_def failure_def)

text \<open>
  C4, as stated, fails on the MongoDB router. With the flag false a delete of an id
  that no document has is answered 503; with the flag true and a route parameter that
  is no ObjectId the cast throws and the answer is 500. Neither answer is 404.
\<close>

theorem delete_unknown_id_counterexample:
  "mg_docs (s_mongo (server0 False)) = []
   \<and> app (env0 5 sample_oid) (server0 False) Mongo (DeleteUser sample_oid) =
       (server0 False,
        (503, [(''success'', JBool False),
               (''message'',
                JStr ''MongoDB is not running. Please install & start MongoDB, then restart the server.'')]))
   \<and> mg_docs (s_mongo (server0 True)) = []
   \<and> app (env0 5 sample_oid) (server0 True) Mongo (DeleteUser ''abc'') =
       (server0 True, (500, [(''success'', JBool False), (''message'', JStr (cast_error ''abc''))]))"
  by (simp add: app_def mongo_router_def mongo_unavailable_def mongo_routes_def
      mongo_delete_user_def mongo_findByIdAndDelete_def server0_def env0_def hex24_abc failure_def)

text \<open>
  C4, amended. When the store answers and accepts the route parameter as an id (for
  MongoDB: the flag is true and the parameter casts to an ObjectId) and no stored user
  has this id, the delete route responds 404 with \<^verbatim>\<open>success: false\<close> and the store is
  unchanged. On every backend and in every state, 200 is answered only when a stored
  user matches the id, and then the matching rows (for MongoDB the first matching
  document) are gone from the store. A route parameter that is no ObjectId is
  answered 500 by the connected MongoDB router, and every request to the MongoDB
  router is answered 503 while the flag is false.
\<close>

theorem delete_unknown_id:
  "((\<forall>r\<in>set (t_rows t). \<not> sqlite_hit C p r) \<longrightarrow>
      sqlite_delete_user C (Some t) p = (Some t, failure 404 ''User not found''))
   \<and> ((my_failure mdb = None \<and> Cm p = Inr v \<and> (\<forall>r\<in>set (t_rows (my_table mdb)). \<not> mysql_hit v r)) \<longrightarrow>
        mysql_delete_user Cm mdb p = (mdb, failure 404 ''User not found''))
   \<and> ((mg_failure gdb = None \<and> e_mongo_cast E p = Some i \<and> (\<forall>d\<in>set (mg_docs gdb). d_id d \<noteq> i)) \<longrightarrow>
        mongo_router E True gdb (DeleteUser p) = (gdb, failure 404 ''User not found''))
   \<and> (status_of (snd (sqlite_delete_user C sdb p)) = 200 \<longrightarrow>
        (\<exists>t0. sdb = Some t0 \<and> (\<exists>r\<in>set (t_rows t0). sqlite_hit C p r)
           \<and> fst (sqlite_delete_user C sdb p) =
               Some (t0\<lparr>t_rows := filter (\<lambda>r. \<not> sqlite_hit C p r) (t_rows t0)\<rparr>)))
   \<and> (status_of (snd (mysql_delete_user Cm mdb' p)) = 200 \<longrightarrow>
        (\<exists>w. Cm p = Inr w \<and> (\<exists>r\<in>set (t_rows (my_table mdb')). mysql_hit w r)
           \<and> fst (mysql_delete_user Cm mdb' p) =
               mdb'\<lparr>my_table := (my_table mdb')\<lparr>t_rows :=
                   filter (\<lambda>r. \<not> mysql_hit w r) (t_rows (my_table mdb'))\<rparr>\<rparr>))
   \<and> (status_of (snd (mongo_router E c gdb' (DeleteUser p))) = 200 \<longrightarrow>
        (\<exists>j. e_mongo_cast E p = Some j \<and> (\<exists>d\<in>set (mg_docs gdb'). d_id d = j)
           \<and> fst (mongo_router E c gdb' (DeleteUser p)) =
               gdb'\<lparr>mg_docs := delete_first (\<lambda>d. d_id d = j) (mg_docs gdb')\<rparr>))
   \<and> ((mg_failure gdb = None \<and> e_mongo_cast E p = None) \<longrightarrow>
        mongo_router E True gdb (DeleteUser p) = (gdb, failure 500 (cast_error p)))
   \<and> mongo_router E False gdb op =
       (gdb, failure 503
          ''MongoDB is not running. Please install & start MongoDB, then restart the server.'')"
proof (intro conjI impI)
  assume "\<forall>r\<in>set (t_rows t). \<not> sqlite_hit C p r"
  then show "sqlite_delete_user C (Some t) p = (Some t, failure 404 ''User not found'')"
    by (rule sqlite_delete_unknown)
next
  assume "my_failure mdb = None \<and> Cm p = Inr v \<and> (\<forall>r\<in>set (t_rows (my_table mdb)). \<not> mysql_hit v r)"
  then show "mysql_delete_user Cm mdb p = (mdb, failure 404 ''User not found'')"
    using mysql_delete_unknown [of mdb Cm p v] by simp
next
  assume "mg_failure gdb = None \<and> e_mongo_cast E p = Some i \<and> (\<forall>d\<in>set (mg_docs gdb). d_id d \<noteq> i)"
  then have "mongo_delete_user (e_mongo_cast E) gdb p = (gdb, failure 404 ''User not found'')"
    using mongo_delete_unknown [of gdb "e_mongo_cast E" p i] by simp
  then show "mongo_router E True gdb (DeleteUser p) = (gdb, failure 404 ''User not found'')"
    by (simp add: mongo_router_connected mongo_routes_def)
next
  assume "status_of (snd (sqlite_delete_user C sdb p)) = 200"
  then show "\<exists>t0. sdb = Some t0 \<and> (\<exists>r\<in>set (t_rows t0). sqlite_hit C p r)
           \<and> fst (sqlite_delete_user C sdb p) =
               Some (t0\<lparr>t_rows := filter (\<lambda>r. \<not> sqlite_hit C p r) (t_rows t0)\<rparr>)"
    by (rule sqlite_delete_200)
next
  assume "status_of (snd (mysql_delete_user Cm mdb' p)) = 200"
  then show "\<exists>w. Cm p = Inr w \<and> (\<exists>r\<in>set (t_rows (my_table mdb')). mysql_hit w r)
           \<and> fst (mysql_delete_user Cm mdb' p) =
               mdb'\<lparr>my_table := (my_table mdb')\<lparr>t_rows :=
                   filter (\<lambda>r. \<not> mysql_hit w r) (t_rows (my_table mdb'))\<rparr>\<rparr>"
    by (rule mysql_delete_200)
next
  assume ok: "status_of (snd (mongo_router E c gdb' (DeleteUser p))) = 200"
  then have c: "c" using mongo_router_not_200 [of E gdb' "DeleteUser p"] by (cases c) simp_all
  then have eq: "mongo_router E c gdb' (DeleteUser p) = mongo_delete_user (e_mongo_cast E) gdb' p"
    by (simp add: mongo_router_connected mongo_routes_def)
  from ok have "status_of (snd (mongo_delete_user (e_mongo_cast E) gdb' p)) = 200"
    by (simp add: eq)
  then show "\<exists>j. e_mongo_cast E p = Some j \<and> (\<exists>d\<in>set (mg_docs gdb'). d_id d = j)
           \<and> fst (mongo_router E c gdb' (DeleteUser p)) =
               gdb'\<lparr>mg_docs := delete_first (\<lambda>d. d_id d = j) (mg_docs gdb')\<rparr>"
    unfolding eq by (rule mongo_delete_200)
next
  assume "mg_failure gdb = None \<and> e_mongo_cast E p = None"
  then show "mongo_router E True gdb (DeleteUser p) = (gdb, failure 500 (cast_error p))"
    by (simp add: mongo_router_connected mongo_routes_def mongo_delete_user_def
        mongo_findByIdAndDelete_def)
next
  show "mongo_router E False gdb op =
       (gdb, failure 503
          ''MongoDB is not running. Please install & start MongoDB, then restart the server.'')"
    by (simp add: mongo_router_def mongo_unavailable_def)
qed

lemma sqlite_delete_sample:
  "sqlite_delete_user decimal_id (Some \<lparr>t_rows = [sample_row 1 10, sample_row 7 20], t_seq = 7\<rparr>) ''7'' =
     (Some \<lparr>t_rows = [sample_row 1 10], t_seq = 7\<rparr>,
      (200, [(''success'', JBool True), (''message'', JStr ''User deleted successfully'')]))"
  by (simp add: sqlite_delete_user_def sqlite_delete_def sqlite_hit_def decimal_id_7 sample_row_def)

lemma mysql_delete_sample:
  "mysql_delete_user (\<lambda>p. Inr (decimal_id p))
      \<lparr>my_failure = None, my_table = \<lparr>t_rows = [sample_row 1 10, sample_row 7 20], t_seq = 7\<rparr>\<rparr> ''7'' =
     (\<lparr>my_failure = None, my_table = \<lparr>t_rows = [sample_row 1 10], t_seq = 7\<rparr>\<rparr>,
      (200, [(''success'', JBool True), (''message'', JStr ''User deleted successfully'')]))"
  by (simp add: mysql_delete_user_def mysql_delete_def mysql_hit_def decimal_id_7 sample_row_def)

lemma mongo_delete_sample:
  "mongo_router (env0 5 sample_oid) True \<lparr>mg_failure = None, mg_docs = [sample_doc sample_oid 10]\<rparr>
      (DeleteUser sample_oid) =
     (\<lparr>mg_failure = None, mg_docs = []\<rparr>,
      (200, [(''success'', JBool True), (''message'', JStr ''User deleted successfully'')]))"
  by (simp add: mongo_router_connected mongo_routes_def mongo_delete_user_def
      mongo_findByIdAndDelete_def env0_def hex24_sample sample_doc_def)

theorem delete_unknown_id_witness:
  "sqlite_delete_user decimal_id (Some \<lparr>t_rows = [sample_row 1 10], t_seq = 1\<rparr>) ''7'' =
     (Some \<lparr>t_rows = [sample_row 1 10], t_seq = 1\<rparr>, failure 404 ''User not found'')
   \<and> mysql_delete_user (\<lambda>p. Inr (decimal_id p))
        \<lparr>my_failure = None, my_table = \<lparr>t_rows = [sample_row 1 10], t_seq = 1\<rparr>\<rparr> ''7'' =
     (\<lparr>my_failure = None, my_table = \<lparr>t_rows = [sample_row 1 10], t_seq = 1\<rparr>\<rparr>,
      failure 404 ''User not found'')
   \<and> mongo_router (env0 5 sample_oid) True \<lparr>mg_failure = None, mg_docs = []\<rparr> (DeleteUser sample_oid) =
     (\<lparr>mg_failure = None, mg_docs = []\<rparr>, failure 404 ''User not found'')
   \<and> fst (sqlite_delete_user decimal_id
             (Some \<lparr>t_rows = [sample_row 1 10, sample_row 7 20], t_seq = 7\<rparr>) ''7'') =
       Some \<lparr>t_rows = [sample_row 1 10], t_seq = 7\<rparr>
   \<and> fst (mysql_delete_user (\<lambda>p. Inr (decimal_id p))
             \<lparr>my_failure = None, my_table = \<lparr>t_rows = [sample_row 1 10, sample_row 7 20], t_seq = 7\<rparr>\<rparr>
             ''7'') =
       \<lparr>my_failure = None, my_table = \<lparr>t_rows = [sample_row 1 10], t_seq = 7\<rparr>\<rparr>
   \<and> fst (mongo_router (env0 5 sample_oid) True
             \<lparr>mg_failure = None, mg_docs = [sample_doc sample_oid 10]\<rparr> (DeleteUser sample_oid)) =
       \<lparr>mg_failure = None, mg_docs = []\<rparr>"
proof -
  have h1: "\<forall>r\<in>set (t_rows \<lparr>t_rows = [sample_row 1 10], t_seq = 1\<rparr>). \<not> sqlite_hit decimal_id ''7'' r"
    by (simp add: sqlite_hit_def decimal_id_7 sample_row_def)
  have h2: "\<forall>r\<in>set (t_rows (my_table \<lparr>my_failure = None, my_table = \<lparr>t_rows = [sample_row 1 10], t_seq = 1\<rparr>\<rparr>)).
      \<not> mysql_hit (Some 7) r"
    by (simp add: mysql_hit_def sample_row_def)
  have h3: "e_mongo_cast (env0 5 sample_oid) sample_oid = Some sample_oid"
    by (simp add: env0_def hex24_sample)
  have h4: "status_of (snd (sqlite_delete_user decimal_id
             (Some \<lparr>t_rows = [sample_row 1 10, sample_row 7 20], t_seq = 7\<rparr>) ''7'')) = 200"
    by (simp add: sqlite_delete_sample status_of_def)
  have h5: "status_of (snd (mysql_delete_user (\<lambda>p. Inr (decimal_id p))
             \<lparr>my_failure = None, my_table = \<lparr>t_rows = [sample_row 1 10, sample_row 7 20], t_seq = 7\<rparr>\<rparr>
             ''7'')) = 200"
    by (simp add: mysql_delete_sample status_of_def)
  have h6: "status_of (snd (mongo_router (env0 5 sample_oid) True
             \<lparr>mg_failure = None, mg_docs = [sample_doc sample_oid 10]\<rparr> (DeleteUser sample_oid))) = 200"
    by (simp add: mongo_delete_sample status_of_def)
  have sql: ?thesis if
    "sqlite_delete_user decimal_id (Some \<lparr>t_rows = [sample_row 1 10], t_seq = 1\<rparr>) ''7'' =
       (Some \<lparr>t_rows = [sample_row 1 10], t_seq = 1\<rparr>, failure 404 ''User not found'')"
    "mysql_delete_user (\<lambda>p. Inr (decimal_id p))
        \<lparr>my_failure = None, my_table = \<lparr>t_rows = [sample_row 1 10], t_seq = 1\<rparr>\<rparr> ''7'' =
     (\<lparr>my_failure = None, my_table = \<lparr>t_rows = [sample_row 1 10], t_seq = 1\<rparr>\<rparr>,
      failure 404 ''User not found'')"
    "mongo_router (env0 5 sample_oid) True \<lparr>mg_failure = None, mg_docs = []\<rparr> (DeleteUser sample_oid) =
     (\<lparr>mg_failure = None, mg_docs = []\<rparr>, failure 404 ''User not found'')"
    using that by (simp add: sqlite_delete_sample mysql_delete_sample mongo_delete_sample)
  from delete_unknown_id
    [where t = "\<lparr>t_rows = [sample_row 1 10], t_seq = 1\<rparr>" and C = decimal_id and p = "''7''"
       and mdb = "\<lparr>my_failure = None, my_table = \<lparr>t_rows = [sample_row 1 10], t_seq = 1\<rparr>\<rparr>"
       and Cm = "\<lambda>p. Inr (decimal_id p)" and v = "Some 7"
       and sdb = "Some \<lparr>t_rows = [sample_row 1 10, sample_row 7 20], t_seq = 7\<rparr>"
       and mdb' = "\<lparr>my_failure = None, my_table = \<lparr>t_rows = [sample_row 1 10, sample_row 7 20], t_seq = 7\<rparr>\<rparr>"]
    h1 h2 h4 h5
  have a: "sqlite_delete_user decimal_id (Some \<lparr>t_rows = [sample_row 1 10], t_seq = 1\<rparr>) ''7'' =
       (Some \<lparr>t_rows = [sample_row 1 10], t_seq = 1\<rparr>, failure 404 ''User not found'')
     \<and> mysql_delete_user (\<lambda>p. Inr (decimal_id p))
        \<lparr>my_failure = None, my_table = \<lparr>t_rows = [sample_row 1 10], t_seq = 1\<rparr>\<rparr> ''7'' =
       (\<lparr>my_failure = None, my_table = \<lparr>t_rows = [sample_row 1 10], t_seq = 1\<rparr>\<rparr>,
        failure 404 ''User not found'')"
    by (simp add: decimal_id_7)
  from delete_unknown_id
    [where gdb = "\<lparr>mg_failure = None, mg_docs = []\<rparr>" and E = "env0 5 sample_oid"
       and p = sample_oid and i = sample_oid and c = True
       and gdb' = "\<lparr>mg_failure = None, mg_docs = [sample_doc sample_oid 10]\<rparr>"]
    h3 h6
  have b: "mongo_router (env0 5 sample_oid) True \<lparr>mg_failure = None, mg_docs = []\<rparr> (DeleteUser sample_oid) =
     (\<lparr>mg_failure = None, mg_docs = []\<rparr>, failure 404 ''User not found'')"
    by simp
  from a b show ?thesis by (intro sql) simp_all
qed

section \<open>Creating a user and fetching it\<close>

lemma show_int_1: "show_int 1 = ''1''"
  by code_simp

lemma decimal_id_1: "decimal_id ''1'' = Some 1"
  by code_simp

lemma digit_chars:
  "char_of (48::nat) = CHR ''0''" "char_of (49::nat) = CHR ''1''" "char_of (50::nat) = CHR ''2''"
  "char_of (51::nat) = CHR ''3''" "char_of (52::nat) = CHR ''4''" "char_of (53::nat) = CHR ''5''"
  "char_of (54::nat) = CHR ''6''" "char_of (55::nat) = CHR ''7''" "char_of (56::nat) = CHR ''8''"
  "char_of (57::nat) = CHR ''9''"
  by code_simp+

lemma bit_length_after_2_53: "bit_length 9007199254740993 = 54"
  by (simp add: bit_length.simps)

lemma js_number_after_2_53: "js_number 9007199254740993 = 9007199254740992"
  by (simp add: js_number_def bit_length_after_2_53 Let_def)

lemma show_int_2_53: "show_int 9007199254740992 = ''9007199254740992''"
  by (simp add: show_int_def digit_chars)

lemma parseInt_2_53: "parseInt ''9007199254740992'' (Some 10) = Some 9007199254740992"
  by code_simp

lemma decimal_id_2_53: "decimal_id ''9007199254740992'' = Some 9007199254740992"
  by (simp add: decimal_id_def parseInt_2_53 show_int_2_53)

text \<open>
  C5, as stated, fails on SQLite once the ids pass \<open>2^53\<close>. In a table whose last id
  is \<open>2^53\<close>, the create route stores the new user under \<open>2^53 + 1\<close> and answers with
  \<^verbatim>\<open>lastInsertRowid\<close> as a JavaScript number, \<open>2^53\<close>; the get route for the returned id
  answers with the older user, whose name, email and phone are not the ones supplied.
\<close>

theorem create_then_get_counterexample:
  "snd (sqlite_post_users (Some table_at_2_53) 5 sample_body) =
     (201, [(''success'', JBool True),
            (''data'', JObj [(''id'', JNum 9007199254740992), (''name'', JStr ''Dave''),
                             (''email'', JStr ''dave@x.com''), (''phone'', JStr ''555'')])])
   \<and> sqlite_rows (fst (sqlite_post_users (Some table_at_2_53) 5 sample_body)) =
       t_rows table_at_2_53 @
         [\<lparr>r_id = 9007199254740993, r_name = ''Dave'', r_email = ''dave@x.com'',
           r_phone = ''555'', r_created_at = 5, r_updated_at = 5\<rparr>]
   \<and> sqlite_get_user decimal_id (fst (sqlite_post_users (Some table_at_2_53) 5 sample_body))
       ''9007199254740992'' =
     (200, [(''success'', JBool True),
            (''data'', JObj [(''id'', JNum 9007199254740992), (''name'', JStr ''Old''),
                             (''email'', JStr ''old@x.com''), (''phone'', JStr ''111''),
                             (''created_at'', JNum 1), (''updated_at'', JNum 1)])])"
proof -
  let ?old = "\<lparr>r_id = 9007199254740992, r_name = ''Old'', r_email = ''old@x.com'',
                r_phone = ''111'', r_created_at = 1, r_updated_at = 1\<rparr>"
  let ?new = "\<lparr>r_id = 9007199254740993, r_name = ''Dave'', r_email = ''dave@x.com'',
                r_phone = ''555'', r_created_at = 5, r_updated_at = 5\<rparr>"
  have ins: "sqlite_insert table_at_2_53 5 sample_body =
      Inr (9007199254740993, \<lparr>t_rows = [?old, ?new], t_seq = 9007199254740993\<rparr>)"
    by (simp add: sqlite_insert_def sqlite_not_null_def sample_body_def table_at_2_53_def
        max_id_def Let_def)
  have post: "sqlite_post_users (Some table_at_2_53) 5 sample_body =
      (Some \<lparr>t_rows = [?old, ?new], t_seq = 9007199254740993\<rparr>,
       (201, [(''success'', JBool True),
              (''data'', JObj [(''id'', JNum 9007199254740992), (''name'', JStr ''Dave''),
                               (''email'', JStr ''dave@x.com''), (''phone'', JStr ''555'')])]))"
    apply (simp add: sqlite_post_users_def ins js_number_after_2_53)
    apply (simp add: echo_json_def sample_body_def)
    done
  have safe: "js_number 9007199254740992 = 9007199254740992"
    by (rule js_number_safe) simp_all
  have get: "sqlite_get_user decimal_id (Some \<lparr>t_rows = [?old, ?new], t_seq = 9007199254740993\<rparr>)
       ''9007199254740992'' =
     (200, [(''success'', JBool True),
            (''data'', JObj [(''id'', JNum 9007199254740992), (''name'', JStr ''Old''),
                             (''email'', JStr ''old@x.com''), (''phone'', JStr ''111''),
                             (''created_at'', JNum 1), (''updated_at'', JNum 1)])])"
    by (simp add: sqlite_get_user_def sqlite_select_by_id_def sqlite_hit_def decimal_id_2_53
        row_json_def safe)
  show ?thesis
    unfolding post using get by (simp add: sqlite_rows_def table_at_2_53_def)
qed

text \<open>
  C5, amended. On every backend, a create request with texts for \<^verbatim>\<open>name\<close>, \<^verbatim>\<open>email\<close>
  and \<^verbatim>\<open>phone\<close> that the store accepts is answered 201 with the new id, and the get
  route for the returned id, called next, is answered 200 with a record whose
  \<^verbatim>\<open>name\<close>, \<^verbatim>\<open>email\<close> and \<^verbatim>\<open>phone\<close> are the texts supplied, provided the new id is a
  JavaScript number without rounding: at most \<open>2^53\<close> on SQLite; the ids of MySQL and
  the ObjectIds of MongoDB always are. The store accepts the request when it answers
  and has an id left, when moreover the texts fit the columns (MySQL), when the
  texts are not empty and the ObjectId is new (MongoDB). The id goes into the URL as
  its decimal text, which the engine reads as that id; the ObjectId goes as its own
  text.
\<close>

theorem create_then_get:
  "(c_name b = Text n \<and> c_email b = Text e \<and> c_phone b = Text ph
      \<and> i = max (t_seq t) (max_id (t_rows t)) + 1 \<and> i \<le> 9007199254740992
      \<and> C (show_int i) = Some i \<longrightarrow>
      snd (sqlite_post_users (Some t) now b) =
        (201, [(''success'', JBool True),
               (''data'', JObj [(''id'', JNum i), (''name'', JStr n), (''email'', JStr e),
                                (''phone'', JStr ph)])])
      \<and> sqlite_get_user C (fst (sqlite_post_users (Some t) now b)) (show_int i) =
          (200, [(''success'', JBool True),
                 (''data'', JObj [(''id'', JNum i), (''name'', JStr n), (''email'', JStr e),
                                  (''phone'', JStr ph), (''created_at'', JNum (int now)),
                                  (''updated_at'', JNum (int now))])]))
   \<and> (c_name b = Text n \<and> c_email b = Text e \<and> c_phone b = Text ph
      \<and> length n \<le> 255 \<and> length e \<le> 255 \<and> length ph \<le> 20
      \<and> my_failure mdb = None \<and> 0 \<le> t_seq (my_table mdb)
      \<and> j = t_seq (my_table mdb) + 1 \<and> j \<le> 2147483647
      \<and> (\<forall>r\<in>set (t_rows (my_table mdb)). r_id r \<noteq> j)
      \<and> Cm (show_int j) = Inr (Some j) \<longrightarrow>
      snd (mysql_post_users mdb now b) =
        (201, [(''success'', JBool True),
               (''data'', JObj [(''id'', JNum j), (''name'', JStr n), (''email'', JStr e),
                                (''phone'', JStr ph)])])
      \<and> mysql_get_user Cm (fst (mysql_post_users mdb now b)) (show_int j) =
          (200, [(''success'', JBool True),
                 (''data'', JObj [(''id'', JNum j), (''name'', JStr n), (''email'', JStr e),
                                  (''phone'', JStr ph), (''created_at'', JNum (int now)),
                                  (''updated_at'', JNum (int now))])]))
   \<and> (c_name b = Text n \<and> c_email b = Text e \<and> c_phone b = Text ph
      \<and> n \<noteq> [] \<and> e \<noteq> [] \<and> ph \<noteq> []
      \<and> mg_failure gdb = None \<and> (\<forall>d\<in>set (mg_docs gdb). d_id d \<noteq> e_oid E)
      \<and> e_mongo_cast E (e_oid E) = Some (e_oid E) \<longrightarrow>
      snd (mongo_router E True gdb (CreateUser b)) =
        (201, [(''success'', JBool True),
               (''data'', JObj [(''_id'', JStr (e_oid E)), (''name'', JStr n),
                                (''email'', JStr e), (''phone'', JStr ph),
                                (''createdAt'', JNum (int (e_now E))),
                                (''updatedAt'', JNum (int (e_now E))), (''__v'', JNum 0)])])
      \<and> snd (mongo_router E True (fst (mongo_router E True gdb (CreateUser b))) (GetUser (e_oid E))) =
          (200, [(''success'', JBool True),
                 (''data'', JObj [(''_id'', JStr (e_oid E)), (''name'', JStr n),
                                  (''email'', JStr e), (''phone'', JStr ph),
                                  (''createdAt'', JNum (int (e_now E))),
                                  (''updatedAt'', JNum (int (e_now E))), (''__v'', JNum 0)])]))"
proof (intro conjI)
  show "c_name b = Text n \<and> c_email b = Text e \<and> c_phone b = Text ph
      \<and> i = max (t_seq t) (max_id (t_rows t)) + 1 \<and> i \<le> 9007199254740992
      \<and> C (show_int i) = Some i \<longrightarrow>
      snd (sqlite_post_users (Some t) now b) =
        (201, [(''success'', JBool True),
               (''data'', JObj [(''id'', JNum i), (''name'', JStr n), (''email'', JStr e),
                                (''phone'', JStr ph)])])
      \<and> sqlite_get_user C (fst (sqlite_post_users (Some t) now b)) (show_int i) =
          (200, [(''success'', JBool True),
                 (''data'', JObj [(''id'', JNum i), (''name'', JStr n), (''email'', JStr e),
                                  (''phone'', JStr ph), (''created_at'', JNum (int now)),
                                  (''updated_at'', JNum (int now))])])"
  proof
    assume h: "c_name b = Text n \<and> c_email b = Text e \<and> c_phone b = Text ph
      \<and> i = max (t_seq t) (max_id (t_rows t)) + 1 \<and> i \<le> 9007199254740992
      \<and> C (show_int i) = Some i"
    then have "0 \<le> i" using max_id_nonneg [of "t_rows t"] by simp
    moreover from h have "i \<le> 9007199254740992" by blast
    ultimately have safe: "js_number i = i" by (rule js_number_safe)
    from h obtain db' where
      1: "sqlite_post_users (Some t) now b =
            (db', (201, [(''success'', JBool True),
                         (''data'', JObj [(''id'', JNum i), (''name'', JStr n),
                                          (''email'', JStr e), (''phone'', JStr ph)])]))"
      and 2: "sqlite_get_user C db' (show_int i) =
               (200, [(''success'', JBool True),
                      (''data'', row_json \<lparr>r_id = i, r_name = n, r_email = e, r_phone = ph,
                                           r_created_at = now, r_updated_at = now\<rparr>)])"
      using sqlite_create_then_get [of b n e ph i t C now] by blast
    show "snd (sqlite_post_users (Some t) now b) =
        (201, [(''success'', JBool True),
               (''data'', JObj [(''id'', JNum i), (''name'', JStr n), (''email'', JStr e),
                                (''phone'', JStr ph)])])
      \<and> sqlite_get_user C (fst (sqlite_post_users (Some t) now b)) (show_int i) =
          (200, [(''success'', JBool True),
                 (''data'', JObj [(''id'', JNum i), (''name'', JStr n), (''email'', JStr e),
                                  (''phone'', JStr ph), (''created_at'', JNum (int now)),
                                  (''updated_at'', JNum (int now))])])"
      unfolding 1 using 2 by (simp add: row_json_def safe)
  qed
next
  show "c_name b = Text n \<and> c_email b = Text e \<and> c_phone b = Text ph
      \<and> length n \<le> 255 \<and> length e \<le> 255 \<and> length ph \<le> 20
      \<and> my_failure mdb = None \<and> 0 \<le> t_seq (my_table mdb)
      \<and> j = t_seq (my_table mdb) + 1 \<and> j \<le> 2147483647
      \<and> (\<forall>r\<in>set (t_rows (my_table mdb)). r_id r \<noteq> j)
      \<and> Cm (show_int j) = Inr (Some j) \<longrightarrow>
      snd (mysql_post_users mdb now b) =
        (201, [(''success'', JBool True),
               (''data'', JObj [(''id'', JNum j), (''name'', JStr n), (''email'', JStr e),
                                (''phone'', JStr ph)])])
      \<and> mysql_get_user Cm (fst (mysql_post_users mdb now b)) (show_int j) =
          (200, [(''success'', JBool True),
                 (''data'', JObj [(''id'', JNum j), (''name'', JStr n), (''email'', JStr e),
                                  (''phone'', JStr ph), (''created_at'', JNum (int now)),
                                  (''updated_at'', JNum (int now))])])"
  proof
    assume h: "c_name b = Text n \<and> c_email b = Text e \<and> c_phone b = Text ph
      \<and> length n \<le> 255 \<and> length e \<le> 255 \<and> length ph \<le> 20
      \<and> my_failure mdb = None \<and> 0 \<le> t_seq (my_table mdb)
      \<and> j = t_seq (my_table mdb) + 1 \<and> j \<le> 2147483647
      \<and> (\<forall>r\<in>set (t_rows (my_table mdb)). r_id r \<noteq> j)
      \<and> Cm (show_int j) = Inr (Some j)"
    then have "0 \<le> j" "j \<le> 9007199254740992" by simp_all
    then have safe: "js_number j = j" by (rule js_number_safe)
    from h obtain db' where
      1: "mysql_post_users mdb now b =
            (db', (201, [(''success'', JBool True),
                         (''data'', JObj [(''id'', JNum j), (''name'', JStr n),
                                          (''email'', JStr e), (''phone'', JStr ph)])]))"
      and 2: "mysql_get_user Cm db' (show_int j) =
               (200, [(''success'', JBool True),
                      (''data'', row_json \<lparr>r_id = j, r_name = n, r_email = e, r_phone = ph,
                                           r_created_at = now, r_updated_at = now\<rparr>)])"
      using mysql_create_then_get [of b n e ph mdb j Cm now] by blast
    show "snd (mysql_post_users mdb now b) =
        (201, [(''success'', JBool True),
               (''data'', JObj [(''id'', JNum j), (''name'', JStr n), (''email'', JStr e),
                                (''phone'', JStr ph)])])
      \<and> mysql_get_user Cm (fst (mysql_post_users mdb now b)) (show_int j) =
          (200, [(''success'', JBool True),
                 (''data'', JObj [(''id'', JNum j), (''name'', JStr n), (''email'', JStr e),
                                  (''phone'', JStr ph), (''created_at'', JNum (int now)),
                                  (''updated_at'', JNum (int now))])])"
      unfolding 1 using 2 by (simp add: row_json_def safe)
  qed
next
  show "c_name b = Text n \<and> c_email b = Text e \<and> c_phone b = Text ph
      \<and> n \<noteq> [] \<and> e \<noteq> [] \<and> ph \<noteq> []
      \<and> mg_failure gdb = None \<and> (\<forall>d\<in>set (mg_docs gdb). d_id d \<noteq> e_oid E)
      \<and> e_mongo_cast E (e_oid E) = Some (e_oid E) \<longrightarrow>
      snd (mongo_router E True gdb (CreateUser b)) =
        (201, [(''success'', JBool True),
               (''data'', JObj [(''_id'', JStr (e_oid E)), (''name'', JStr n),
                                (''email'', JStr e), (''phone'', JStr ph),
                                (''createdAt'', JNum (int (e_now E))),
                                (''updatedAt'', JNum (int (e_now E))), (''__v'', JNum 0)])])
      \<and> snd (mongo_router E True (fst (mongo_router E True gdb (CreateUser b))) (GetUser (e_oid E))) =
          (200, [(''success'', JBool True),
                 (''data'', JObj [(''_id'', JStr (e_oid E)), (''name'', JStr n),
                                  (''email'', JStr e), (''phone'', JStr ph),
                                  (''createdAt'', JNum (int (e_now E))),
                                  (''updatedAt'', JNum (int (e_now E))), (''__v'', JNum 0)])])"
  proof
    assume h: "c_name b = Text n \<and> c_email b = Text e \<and> c_phone b = Text ph
      \<and> n \<noteq> [] \<and> e \<noteq> [] \<and> ph \<noteq> []
      \<and> mg_failure gdb = None \<and> (\<forall>d\<in>set (mg_docs gdb). d_id d \<noteq> e_oid E)
      \<and> e_mongo_cast E (e_oid E) = Some (e_oid E)"
    from h obtain db' where
      1: "mongo_router E True gdb (CreateUser b) =
            (db', (201, [(''success'', JBool True),
                         (''data'', doc_json \<lparr>d_id = e_oid E, d_name = n, d_email = e, d_phone = ph,
                                d_createdAt = e_now E, d_updatedAt = e_now E, d_v = 0\<rparr>)]))"
      and 2: "mongo_router E True db' (GetUser (e_oid E)) =
               (db', (200, [(''success'', JBool True),
                      (''data'', doc_json \<lparr>d_id = e_oid E, d_name = n, d_email = e, d_phone = ph,
                                d_createdAt = e_now E, d_updatedAt = e_now E, d_v = 0\<rparr>)]))"
      using mongo_create_then_get [of b n e ph gdb E] by blast
    show "snd (mongo_router E True gdb (CreateUser b)) =
        (201, [(''success'', JBool True),
               (''data'', JObj [(''_id'', JStr (e_oid E)), (''name'', JStr n),
                                (''email'', JStr e), (''phone'', JStr ph),
                                (''createdAt'', JNum (int (e_now E))),
                                (''updatedAt'', JNum (int (e_now E))), (''__v'', JNum 0)])])
      \<and> snd (mongo_router E True (fst (mongo_router E True gdb (CreateUser b))) (GetUser (e_oid E))) =
          (200, [(''success'', JBool True),
                 (''data'', JObj [(''_id'', JStr (e_oid E)), (''name'', JStr n),
                                  (''email'', JStr e), (''phone'', JStr ph),
                                  (''createdAt'', JNum (int (e_now E))),
                                  (''updatedAt'', JNum (int (e_now E))), (''__v'', JNum 0)])])"
      unfolding 1 using 2 by (simp add: doc_json_def)
  qed
qed

theorem create_then_get_witness:
  "sqlite_get_user decimal_id (fst (sqlite_post_users (Some empty_table) 5 sample_body)) ''1'' =
     (200, [(''success'', JBool True),
            (''data'', JObj [(''id'', JNum 1), (''name'', JStr ''Dave''),
                             (''email'', JStr ''dave@x.com''), (''phone'', JStr ''555''),
                             (''created_at'', JNum 5), (''updated_at'', JNum 5)])])
   \<and> mysql_get_user (\<lambda>p. Inr (decimal_id p))
        (fst (mysql_post_users \<lparr>my_failure = None, my_table = empty_table\<rparr> 5 sample_body)) ''1'' =
     (200, [(''success'', JBool True),
            (''data'', JObj [(''id'', JNum 1), (''name'', JStr ''Dave''),
                             (''email'', JStr ''dave@x.com''), (''phone'', JStr ''555''),
                             (''created_at'', JNum 5), (''updated_at'', JNum 5)])])
   \<and> snd (mongo_router (env0 5 sample_oid) True
        (fst (mongo_router (env0 5 sample_oid) True \<lparr>mg_failure = None, mg_docs = []\<rparr>
               (CreateUser sample_body)))
        (GetUser sample_oid)) =
     (200, [(''success'', JBool True),
            (''data'', JObj [(''_id'', JStr sample_oid), (''name'', JStr ''Dave''),
                             (''email'', JStr ''dave@x.com''), (''phone'', JStr ''555''),
                             (''createdAt'', JNum 5), (''updatedAt'', JNum 5), (''__v'', JNum 0)])])"
proof -
  have e: "e_oid (env0 5 sample_oid) = sample_oid" "e_now (env0 5 sample_oid) = 5"
    "e_mongo_cast (env0 5 sample_oid) sample_oid = Some sample_oid"
    by (simp_all add: env0_def hex24_sample)
  from create_then_get
    [where b = sample_body and n = "''Dave''" and e = "''dave@x.com''" and ph = "''555''"
       and t = empty_table and i = 1 and C = decimal_id and now = 5
       and mdb = "\<lparr>my_failure = None, my_table = empty_table\<rparr>" and j = 1
       and Cm = "\<lambda>p. Inr (decimal_id p)"
       and gdb = "\<lparr>mg_failure = None, mg_docs = []\<rparr>" and E = "env0 5 sample_oid"]
  show ?thesis
    by (simp add: sample_body_def empty_table_def max_id_def show_int_1 decimal_id_1 e)
qed

section \<open>Updating a user\<close>

lemma mongo_router_put_store:
  "fst (mongo_router E c gdb (UpdateUser p b)) =
     (if c then fst (mongo_put_user (e_mongo_cast E) gdb (e_now E) p b) else gdb)"
  by (simp add: mongo_router_def mongo_unavailable_def mongo_routes_def)

text \<open>
  C7. An update keeps the id and the creation time of every stored user and leaves
  every user with another id exactly as it was; it writes nothing but the name, email,
  phone and update time of the users with the id of the request. On the SQL backends
  this is stated for an update that is answered 200, where the users with the id
  hold the three fields of the request afterwards; on MongoDB it holds for every
  update request whose parameter casts to an ObjectId, whatever the answer.
\<close>

theorem update_frame:
  "(status_of (snd (sqlite_put_user C (Some t) now p b)) = 200 \<longrightarrow>
      list_all2 (sql_frame (sqlite_hit C p) b) (t_rows t)
        (sqlite_rows (fst (sqlite_put_user C (Some t) now p b))))
   \<and> (status_of (snd (mysql_put_user Cm mdb now p b)) = 200 \<and> Cm p = Inr v \<longrightarrow>
        list_all2 (sql_frame (mysql_hit v) b) (t_rows (my_table mdb))
          (t_rows (my_table (fst (mysql_put_user Cm mdb now p b)))))
   \<and> (e_mongo_cast E p = Some i \<longrightarrow>
        list_all2 (doc_frame i) (mg_docs gdb)
          (mg_docs (fst (mongo_router E c gdb (UpdateUser p b)))))"
proof (intro conjI impI)
  assume "status_of (snd (sqlite_put_user C (Some t) now p b)) = 200"
  then obtain t' where "fst (sqlite_put_user C (Some t) now p b) = Some t'"
    and "list_all2 (sql_frame (sqlite_hit C p) b) (t_rows t) (t_rows t')"
    using sqlite_put_frame [of C t now p b] by blast
  then show "list_all2 (sql_frame (sqlite_hit C p) b) (t_rows t)
        (sqlite_rows (fst (sqlite_put_user C (Some t) now p b)))"
    by (simp add: sqlite_rows_def)
next
  assume "status_of (snd (mysql_put_user Cm mdb now p b)) = 200 \<and> Cm p = Inr v"
  then obtain t' where "fst (mysql_put_user Cm mdb now p b) = mdb\<lparr>my_table := t'\<rparr>"
    and "list_all2 (sql_frame (mysql_hit v) b) (t_rows (my_table mdb)) (t_rows t')"
    using mysql_put_frame [of Cm mdb now p b v] by blast
  then show "list_all2 (sql_frame (mysql_hit v) b) (t_rows (my_table mdb))
          (t_rows (my_table (fst (mysql_put_user Cm mdb now p b))))"
    by simp
next
  assume cast: "e_mongo_cast E p = Some i"
  show "list_all2 (doc_frame i) (mg_docs gdb)
          (mg_docs (fst (mongo_router E c gdb (UpdateUser p b))))"
  proof (cases c)
    case False
    then show ?thesis by (simp add: mongo_router_put_store list_all2_doc_frame_refl)
  next
    case True
    from mongo_put_frame [of "e_mongo_cast E" p i gdb "e_now E" b] cast
    obtain docs' where "fst (mongo_put_user (e_mongo_cast E) gdb (e_now E) p b) = gdb\<lparr>mg_docs := docs'\<rparr>"
      and "list_all2 (doc_frame i) (mg_docs gdb) docs'"
      by blast
    with True show ?thesis by (simp add: mongo_router_put_store)
  qed
qed

lemma sqlite_put_sample:
  "sqlite_put_user decimal_id (Some \<lparr>t_rows = [sample_row 1 10, sample_row 7 20], t_seq = 7\<rparr>) 30 ''7''
      sample_update =
     (Some \<lparr>t_rows = [sample_row 1 10,
                       \<lparr>r_id = 7, r_name = ''Dan'', r_email = ''dan@x.com'', r_phone = ''777'',
                         r_created_at = 20, r_updated_at = 30\<rparr>], t_seq = 7\<rparr>,
      (200, [(''success'', JBool True),
             (''data'', JObj [(''id'', JNum 7), (''name'', JStr ''Dan''),
                              (''email'', JStr ''dan@x.com''), (''phone'', JStr ''777'')])]))"
proof -
  have p: "parseInt ''7'' None = Some 7" by code_simp
  show ?thesis
    by (simp add: sqlite_put_user_def sqlite_update_def sqlite_hit_def decimal_id_7 sample_row_def
        sample_update_def sqlite_not_null_def set_fields_def echo_json_def param_id_json_def p)
qed

lemma mysql_put_sample:
  "mysql_put_user (\<lambda>p. Inr (decimal_id p))
      \<lparr>my_failure = None, my_table = \<lparr>t_rows = [sample_row 1 10, sample_row 7 20], t_seq = 7\<rparr>\<rparr> 30 ''7''
      sample_update =
     (\<lparr>my_failure = None,
       my_table = \<lparr>t_rows = [sample_row 1 10,
                       \<lparr>r_id = 7, r_name = ''Dan'', r_email = ''dan@x.com'', r_phone = ''777'',
                         r_created_at = 20, r_updated_at = 30\<rparr>], t_seq = 7\<rparr>\<rparr>,
      (200, [(''success'', JBool True),
             (''data'', JObj [(''id'', JNum 7), (''name'', JStr ''Dan''),
                              (''email'', JStr ''dan@x.com''), (''phone'', JStr ''777'')])]))"
proof -
  have p: "parseInt ''7'' None = Some 7" by code_simp
  show ?thesis
    by (simp add: mysql_put_user_def mysql_update_def mysql_hit_def decimal_id_7 sample_row_def
        sample_update_def mysql_bind_error_def mysql_column_error_def mysql_column_def
        mysql_set_fields_def set_fields_def echo_json_def param_id_json_def p)
qed

theorem update_frame_witness:
  "list_all2 (sql_frame (sqlite_hit decimal_id ''7'') sample_update)
     [sample_row 1 10, sample_row 7 20]
     [sample_row 1 10,
      \<lparr>r_id = 7, r_name = ''Dan'', r_email = ''dan@x.com'', r_phone = ''777'',
        r_created_at = 20, r_updated_at = 30\<rparr>]
   \<and> list_all2 (sql_frame (mysql_hit (Some 7)) sample_update)
     [sample_row 1 10, sample_row 7 20]
     [sample_row 1 10,
      \<lparr>r_id = 7, r_name = ''Dan'', r_email = ''dan@x.com'', r_phone = ''777'',
        r_created_at = 20, r_updated_at = 30\<rparr>]
   \<and> list_all2 (doc_frame sample_oid) [sample_doc sample_oid 10]
       (mg_docs (fst (mongo_router (env0 30 sample_oid) True
          \<lparr>mg_failure = None, mg_docs = [sample_doc sample_oid 10]\<rparr>
          (UpdateUser sample_oid sample_update))))"
proof -
  have h1: "status_of (snd (sqlite_put_user decimal_id
      (Some \<lparr>t_rows = [sample_row 1 10, sample_row 7 20], t_seq = 7\<rparr>) 30 ''7'' sample_update)) = 200"
    by (simp add: sqlite_put_sample status_of_def)
  have h2: "status_of (snd (mysql_put_user (\<lambda>p. Inr (decimal_id p))
      \<lparr>my_failure = None, my_table = \<lparr>t_rows = [sample_row 1 10, sample_row 7 20], t_seq = 7\<rparr>\<rparr> 30 ''7''
      sample_update)) = 200"
    by (simp add: mysql_put_sample status_of_def)
  have h3: "e_mongo_cast (env0 30 sample_oid) sample_oid = Some sample_oid"
    by (simp add: env0_def hex24_sample)
  from update_frame
    [where C = decimal_id and t = "\<lparr>t_rows = [sample_row 1 10, sample_row 7 20], t_seq = 7\<rparr>"
       and now = 30 and p = "''7''" and b = sample_update
       and Cm = "\<lambda>p. Inr (decimal_id p)"
       and mdb = "\<lparr>my_failure = None, my_table = \<lparr>t_rows = [sample_row 1 10, sample_row 7 20], t_seq = 7\<rparr>\<rparr>"
       and v = "Some 7"] h1 h2
  have a: "list_all2 (sql_frame (sqlite_hit decimal_id ''7'') sample_update)
     [sample_row 1 10, sample_row 7 20]
     [sample_row 1 10,
      \<lparr>r_id = 7, r_name = ''Dan'', r_email = ''dan@x.com'', r_phone = ''777'',
        r_created_at = 20, r_updated_at = 30\<rparr>]
   \<and> list_all2 (sql_frame (mysql_hit (Some 7)) sample_update)
     [sample_row 1 10, sample_row 7 20]
     [sample_row 1 10,
      \<lparr>r_id = 7, r_name = ''Dan'', r_email = ''dan@x.com'', r_phone = ''777'',
        r_created_at = 20, r_updated_at = 30\<rparr>]"
    unfolding sqlite_put_sample mysql_put_sample
    by (simp add: sqlite_rows_def decimal_id_7)
  from update_frame
    [where E = "env0 30 sample_oid" and p = sample_oid and i = sample_oid and c = True
       and gdb = "\<lparr>mg_failure = None, mg_docs = [sample_doc sample_oid 10]\<rparr>" and b = sample_update] h3
  have b: "list_all2 (doc_frame sample_oid) [sample_doc sample_oid 10]
       (mg_docs (fst (mongo_router (env0 30 sample_oid) True
          \<lparr>mg_failure = None, mg_docs = [sample_doc sample_oid 10]\<rparr>
          (UpdateUser sample_oid sample_update))))"
    by simp
  from a b show ?thesis by simp
qed

text \<open>
  C8. Applying the same update twice leaves the stored id, name, email, phone and
  creation time of every user equal to what one application leaves; only the update
  time may differ. This holds on every backend, for every state of the store, every
  route parameter and every payload.
\<close>

theorem update_twice:
  "map stored_fields
     (sqlite_rows (fst (sqlite_put_user C (fst (sqlite_put_user C sdb n1 p b)) n2 p b))) =
   map stored_fields (sqlite_rows (fst (sqlite_put_user C sdb n1 p b)))
   \<and> map stored_fields
       (t_rows (my_table (fst (mysql_put_user Cm (fst (mysql_put_user Cm mdb n1 p b)) n2 p b)))) =
     map stored_fields (t_rows (my_table (fst (mysql_put_user Cm mdb n1 p b))))
   \<and> map doc_fields
       (mg_docs (fst (mongo_put_user cast (fst (mongo_put_user cast gdb n1 p b)) n2 p b))) =
     map doc_fields (mg_docs (fst (mongo_put_user cast gdb n1 p b)))"
  by (intro conjI sqlite_put_twice mysql_put_twice mongo_put_twice)

theorem update_twice_witness:
  "map stored_fields
     (sqlite_rows (fst (sqlite_put_user decimal_id
        (Some \<lparr>t_rows = [sample_row 1 10,
                       \<lparr>r_id = 7, r_name = ''Dan'', r_email = ''dan@x.com'', r_phone = ''777'',
                         r_created_at = 20, r_updated_at = 30\<rparr>], t_seq = 7\<rparr>) 40 ''7'' sample_update))) =
     [(1, ''Dave'', ''dave@x.com'', ''555'', 10), (7, ''Dan'', ''dan@x.com'', ''777'', 20)]"
  using update_twice
    [where C = decimal_id and sdb = "Some \<lparr>t_rows = [sample_row 1 10, sample_row 7 20], t_seq = 7\<rparr>"
       and ?n1.0 = 30 and ?n2.0 = 40 and p = "''7''" and b = sample_update]
  unfolding sqlite_put_sample
  by (simp add: sqlite_rows_def stored_fields_def sample_row_def)

end
